theory Spec2Isabelle
  imports Main "HOL-Library.Word" "HOL-Library.Sublist"
begin

unbundle bit_operations_syntax

section \<open>SCD30 driver: checksum codec\<close>

type_synonym u8 = "8 word"
type_synonym u16 = "16 word"
type_synonym u32 = "32 word"

text \<open>
  The inner loop of \<^verbatim>\<open>SCD30::computeCRC8\<close> (scd30\_lib.cpp):
  \<^verbatim>\<open>for (uint8_t i = 0 ; i < 8 ; i++) { if ((crc & 0x80) != 0) crc = (uint8_t)((crc << 1) ^ 0x31); else crc <<= 1; }\<close>
  The C expression is computed in \<^verbatim>\<open>int\<close> and cast back to 8 bits; on an
  8-bit word the shift drops the high bit directly.
\<close>

function computeCRC8_bits :: "nat \<Rightarrow> u8 \<Rightarrow> u8" where
  "computeCRC8_bits i crc =
     (if i < 8
      then computeCRC8_bits (i + 1)
             (if crc AND 0x80 \<noteq> 0 then push_bit 1 crc XOR 0x31 else push_bit 1 crc)
      else crc)"
  by pat_completeness auto
termination
  by (relation "measure (\<lambda>(i, crc). 8 - i)") auto

declare computeCRC8_bits.simps [simp del]

text \<open>
  The outer loop \<^verbatim>\<open>for (uint8_t x = 0 ; x < len ; x++) { crc ^= data[x]; ... }\<close>.
  \<open>data\<close> is the array the pointer refers to and \<open>len\<close> the count the caller passes.
  Reading \<open>data[x]\<close> beyond the array is undefined in C; here it is \<open>data ! x\<close>,
  which is unspecified beyond the list, and every theorem below reads in range.
\<close>

function computeCRC8_bytes :: "u8 list \<Rightarrow> nat \<Rightarrow> nat \<Rightarrow> u8 \<Rightarrow> u8" where
  "computeCRC8_bytes data len x crc =
     (if x < len
      then computeCRC8_bytes data len (x + 1) (computeCRC8_bits 0 (crc XOR data ! x))
      else crc)"
  by pat_completeness auto
termination
  by (relation "measure (\<lambda>(data, len, x, crc). len - x)") auto

declare computeCRC8_bytes.simps [simp del]

definition computeCRC8 :: "u8 list \<Rightarrow> u8 \<Rightarrow> u8" where
  "computeCRC8 data len = computeCRC8_bytes data (unat len) 0 0xFF"

definition checkCrc :: "u8 list \<Rightarrow> u8 \<Rightarrow> u8 \<Rightarrow> bool" where
  "checkCrc data len crc_rec =
     (let crc = computeCRC8 data len in if crc_rec \<noteq> crc then False else True)"

subsection \<open>The checksum as the specification words it\<close>

text \<open>
  One round: if the high bit is set, shift left and XOR with the polynomial 0x31,
  else shift left.
\<close>

definition spec_round :: "u8 \<Rightarrow> u8" where
  "spec_round acc = (if bit acc 7 then push_bit 1 acc XOR 0x31 else push_bit 1 acc)"

text \<open>
  \<open>compute\<close>: accumulator seeded with 0xFF; each byte is XORed in and followed by
  8 rounds; the final accumulator is returned as it is.
\<close>

definition spec_compute :: "u8 list \<Rightarrow> u8" where
  "spec_compute d = foldl (\<lambda>acc b. (spec_round ^^ 8) (acc XOR b)) 0xFF d"

definition spec_verify :: "u8 list \<Rightarrow> u8 \<Rightarrow> bool" where
  "spec_verify d received = (spec_compute d = received)"


section \<open>The two-wire transport\<close>

text \<open>
  The transport (\<^verbatim>\<open>TwoWire TWI\<close>, from the external twowire library) is a parameter
  of the driver. Its status type \<^verbatim>\<open>Wstatus\<close> has the four values the driver
  switches on; \<open>I2C_OTHER\<close> stands for every value that reaches the \<^verbatim>\<open>default\<close>
  branch.
\<close>

datatype Wstatus = I2C_OK | I2C_SDA_NACK | I2C_SCL_CLKSTR | I2C_SDA_DATA | I2C_OTHER

datatype bus_event = I2cWrite "u8 list" | I2cRead nat | Sleep nat

text \<open>
  The driver's global state (the file-scope variables of scd30\_lib.cpp) together with
  the environment it talks to. \<^verbatim>\<open>_co2\<close>, \<^verbatim>\<open>_temperature\<close> and \<^verbatim>\<open>_humidity\<close>
  are C floats; they are kept as the 32-bit patterns that \<^verbatim>\<open>memcpy\<close> stores into them.
  The environment: \<open>twi_begin_ok\<close> says whether \<^verbatim>\<open>TWI.begin\<close> returns
  \<^verbatim>\<open>TW_SUCCESS\<close>; \<open>write_result n\<close> is the status of the \<open>n\<close>-th call of
  \<^verbatim>\<open>TWI.i2c_write\<close>, \<open>read_result n\<close> the status and the bytes of the \<open>n\<close>-th call
  of \<^verbatim>\<open>TWI.i2c_read\<close>; \<open>bus_log\<close> records every call of the two, and every
  \<^verbatim>\<open>sleep\<close>, in order.
\<close>

record driver =
  g_co2 :: u32
  g_temperature :: u32
  g_humidity :: u32
  g_asc :: bool
  g_interval :: u16
  co2HasBeenReported :: bool
  humidityHasBeenReported :: bool
  temperatureHasBeenReported :: bool
  twi_begin_ok :: bool
  write_result :: "nat \<Rightarrow> Wstatus"
  read_result :: "nat \<Rightarrow> Wstatus \<times> u8 list"
  n_write :: nat
  n_read :: nat
  bus_log :: "bus_event list"

definition i2c_write :: "u8 list \<Rightarrow> driver \<Rightarrow> Wstatus \<times> driver" where
  "i2c_write frame s =
     (write_result s (n_write s),
      s\<lparr>n_write := n_write s + 1, bus_log := bus_log s @ [I2cWrite frame]\<rparr>)"

text \<open>
  \<^verbatim>\<open>TWI.i2c_read(buff, len)\<close> fills \<open>len\<close> bytes of the caller's buffer. The bytes the
  environment delivers are cut to \<open>len\<close>; bytes it does not deliver (a short transfer,
  where the C buffer keeps whatever it held) read as 0.
\<close>

definition i2c_read :: "nat \<Rightarrow> driver \<Rightarrow> (Wstatus \<times> u8 list) \<times> driver" where
  "i2c_read len s =
     (case read_result s (n_read s) of
        (result, bytes) \<Rightarrow>
          ((result, take len (bytes @ replicate len 0)),
           s\<lparr>n_read := n_read s + 1, bus_log := bus_log s @ [I2cRead len]\<rparr>))"

definition sleep :: "nat \<Rightarrow> driver \<Rightarrow> driver" where
  "sleep secs s = s\<lparr>bus_log := bus_log s @ [Sleep secs]\<rparr>"

section \<open>Low level routines\<close>

definition COMMAND_CONTINUOUS_MEASUREMENT :: u16 where
  "COMMAND_CONTINUOUS_MEASUREMENT = 0x0010"
definition COMMAND_SET_MEASUREMENT_INTERVAL :: u16 where
  "COMMAND_SET_MEASUREMENT_INTERVAL = 0x4600"
definition COMMAND_GET_DATA_READY :: u16 where
  "COMMAND_GET_DATA_READY = 0x0202"
definition COMMAND_READ_MEASUREMENT :: u16 where
  "COMMAND_READ_MEASUREMENT = 0x0300"
definition COMMAND_AUTOMATIC_SELF_CALIBRATION :: u16 where
  "COMMAND_AUTOMATIC_SELF_CALIBRATION = 0x5306"
definition COMMAND_SET_FORCED_RECALIBRATION_FACTOR :: u16 where
  "COMMAND_SET_FORCED_RECALIBRATION_FACTOR = 0x5204"
definition COMMAND_SET_TEMPERATURE_OFFSET :: u16 where
  "COMMAND_SET_TEMPERATURE_OFFSET = 0x5403"
definition COMMAND_SET_ALTITUDE_COMPENSATION :: u16 where
  "COMMAND_SET_ALTITUDE_COMPENSATION = 0x5102"
definition CMD_STOP_MEAS :: u16 where
  "CMD_STOP_MEAS = 0x0104"

text \<open>
  The \<^verbatim>\<open>switch (result)\<close> that ends both retry loops: only \<^verbatim>\<open>I2C_OK\<close> returns true.
\<close>

fun status_ok :: "Wstatus \<Rightarrow> bool" where
  "status_ok I2C_OK = True"
| "status_ok I2C_SDA_NACK = False"
| "status_ok I2C_SCL_CLKSTR = False"
| "status_ok I2C_SDA_DATA = False"
| "status_ok I2C_OTHER = False"

text \<open>
  The \<^verbatim>\<open>while (1)\<close> loop of \<^verbatim>\<open>SCD30::sendCommand\<close>:
  \<^verbatim>\<open>result = TWI.i2c_write(buff, len); if (result != I2C_OK) { if (retry-- > 0) continue; } switch (result) ...\<close>
\<close>

function sendCommand_loop :: "u8 list \<Rightarrow> int \<Rightarrow> driver \<Rightarrow> bool \<times> driver" where
  "sendCommand_loop frame retry s =
     (case i2c_write frame s of
        (result, s1) \<Rightarrow>
          if result \<noteq> I2C_OK \<and> retry > 0
          then sendCommand_loop frame (retry - 1) s1
          else (status_ok result, s1))"
  by pat_completeness auto
termination
  by (relation "measure (\<lambda>(frame, retry, s). nat retry)") auto

declare sendCommand_loop.simps [simp del]

text \<open>
  \<^verbatim>\<open>sendCommand(command, arguments, len)\<close>: the frame is the big-endian opcode and,
  if \<open>len > 2\<close>, the big-endian argument and the CRC of the two argument bytes.
  \<^verbatim>\<open>buff\<close> has 5 bytes and \<open>len\<close> of them are written; the driver calls it with
  \<open>len\<close> 2 or 5 only.
\<close>

definition sendCommand_buff :: "u16 \<Rightarrow> u16 \<Rightarrow> u8 \<Rightarrow> u8 list" where
  "sendCommand_buff command arguments len =
     (let buff01 = [ucast (drop_bit 8 command), ucast (command AND 0xFF)];
          buff23 = [ucast (drop_bit 8 arguments), ucast (arguments AND 0xFF)];
          buff = (if len > 2 then buff01 @ buff23 @ [computeCRC8 buff23 2] else buff01)
      in take (unat len) buff)"

definition sendCommand :: "u16 \<Rightarrow> u16 \<Rightarrow> u8 \<Rightarrow> driver \<Rightarrow> bool \<times> driver" where
  "sendCommand command arguments len s =
     sendCommand_loop (sendCommand_buff command arguments len) 3 s"

text \<open>The two overloads: with arguments (5 bytes), and the bare command (2 bytes).\<close>

definition sendCommand_args :: "u16 \<Rightarrow> u16 \<Rightarrow> driver \<Rightarrow> bool \<times> driver" where
  "sendCommand_args command arguments s = sendCommand command arguments 5 s"

definition sendCommand_cmd :: "u16 \<Rightarrow> driver \<Rightarrow> bool \<times> driver" where
  "sendCommand_cmd command s = sendCommand command 0x0 2 s"

text \<open>The \<^verbatim>\<open>while (1)\<close> loop of \<^verbatim>\<open>SCD30::readbytes\<close>, with the buffer it fills.\<close>

function readbytes_loop :: "nat \<Rightarrow> int \<Rightarrow> driver \<Rightarrow> bool \<times> u8 list \<times> driver" where
  "readbytes_loop len retry s =
     (case i2c_read len s of
        ((result, buff), s1) \<Rightarrow>
          if result \<noteq> I2C_OK \<and> retry > 0
          then readbytes_loop len (retry - 1) s1
          else (status_ok result, buff, s1))"
  by pat_completeness auto
termination
  by (relation "measure (\<lambda>(len, retry, s). nat retry)") auto

declare readbytes_loop.simps [simp del]

definition readbytes :: "u8 \<Rightarrow> driver \<Rightarrow> bool \<times> u8 list \<times> driver" where
  "readbytes len s = readbytes_loop (unat len) 3 s"

section \<open>Measurement\<close>

text \<open>
  \<^verbatim>\<open>SCD30::dataAvailable\<close>: the data-ready query, a 3-byte response whose CRC is
  checked, true only if the second data byte is 1.
\<close>

definition dataAvailable :: "driver \<Rightarrow> bool \<times> driver" where
  "dataAvailable s =
     (case sendCommand_cmd COMMAND_GET_DATA_READY s of
        (sent, s1) \<Rightarrow>
          if sent = False then (False, s1)
          else (case readbytes 3 s1 of
                  (got, data, s2) \<Rightarrow>
                    if got = False then (False, s2)
                    else if checkCrc data 2 (data ! 2) = False then (False, s2)
                    else if data ! 1 = 1 then (True, s2)
                    else (False, s2)))"

text \<open>
  The parse loop of \<^verbatim>\<open>SCD30::readMeasurement\<close>,
  \<^verbatim>\<open>for (x = 0, y = 0 ; x < 18 ; x++) switch (x) ...\<close>: the locals are the loop
  index \<open>x\<close>, the index \<open>y\<close> into the two-byte array \<open>data\<close>, and the three
  32-bit accumulators. A CRC mismatch returns false out of the loop (\<open>None\<close>).
\<close>

function readMeasurement_parse ::
  "u8 list \<Rightarrow> nat \<Rightarrow> nat \<Rightarrow> u8 list \<Rightarrow> u32 \<Rightarrow> u32 \<Rightarrow> u32 \<Rightarrow> (u32 \<times> u32 \<times> u32) option" where
  "readMeasurement_parse buff x y data tempCO2 tempTemperature tempHumidity =
     (if x < 18 then
        (if x = 0 \<or> x = 1 \<or> x = 3 \<or> x = 4 then
           readMeasurement_parse buff (x + 1) (y + 1) (data[y := buff ! x])
             (push_bit 8 tempCO2 OR ucast (buff ! x)) tempTemperature tempHumidity
         else if x = 6 \<or> x = 7 \<or> x = 9 \<or> x = 10 then
           readMeasurement_parse buff (x + 1) (y + 1) (data[y := buff ! x])
             tempCO2 (push_bit 8 tempTemperature OR ucast (buff ! x)) tempHumidity
         else if x = 12 \<or> x = 13 \<or> x = 15 \<or> x = 16 then
           readMeasurement_parse buff (x + 1) (y + 1) (data[y := buff ! x])
             tempCO2 tempTemperature (push_bit 8 tempHumidity OR ucast (buff ! x))
         else if checkCrc data 2 (buff ! x) = False then None
         else readMeasurement_parse buff (x + 1) 0 data tempCO2 tempTemperature tempHumidity)
      else Some (tempCO2, tempTemperature, tempHumidity))"
  by pat_completeness auto
termination
  by (relation "measure (\<lambda>(buff, x, y, data, c, t, h). 18 - x)") auto

declare readMeasurement_parse.simps [simp del]

text \<open>
  \<^verbatim>\<open>SCD30::readMeasurement\<close>. The array \<open>data\<close> is uninitialised before the loop
  writes it; it starts as two zero bytes here, and both are written before the first
  CRC check reads them.
\<close>

definition readMeasurement :: "driver \<Rightarrow> bool \<times> driver" where
  "readMeasurement s =
     (case dataAvailable s of
        (avail, s1) \<Rightarrow>
          if avail = False then (False, s1)
          else (case sendCommand_cmd COMMAND_READ_MEASUREMENT s1 of
                  (sent, s2) \<Rightarrow>
                    if sent = False then (False, s2)
                    else (case readbytes 18 s2 of
                            (got, buff, s3) \<Rightarrow>
                              if got = False then (False, s3)
                              else (case readMeasurement_parse buff 0 0 [0, 0] 0 0 0 of
                                      None \<Rightarrow> (False, s3)
                                    | Some (tempCO2, tempTemperature, tempHumidity) \<Rightarrow>
                                        (True,
                                         s3\<lparr>g_co2 := tempCO2,
                                            g_temperature := tempTemperature,
                                            g_humidity := tempHumidity,
                                            co2HasBeenReported := False,
                                            humidityHasBeenReported := False,
                                            temperatureHasBeenReported := False\<rparr>)))))"

text \<open>
  The accessors. \<^verbatim>\<open>getCO2\<close> returns \<^verbatim>\<open>(uint16_t)_co2\<close>; the conversion of the float
  to an integer is the parameter \<open>to_uint16\<close>, applied to the float's bit pattern.
  \<^verbatim>\<open>getHumidity\<close> and \<^verbatim>\<open>getTemperature\<close> return the float, here its bit pattern.
\<close>

definition getCO2 :: "(u32 \<Rightarrow> u16) \<Rightarrow> driver \<Rightarrow> u16 \<times> driver" where
  "getCO2 to_uint16 s =
     (let s1 = (if co2HasBeenReported s = True then snd (readMeasurement s) else s);
          s2 = s1\<lparr>co2HasBeenReported := True\<rparr>
      in (to_uint16 (g_co2 s2), s2))"

definition getHumidity :: "driver \<Rightarrow> u32 \<times> driver" where
  "getHumidity s =
     (let s1 = (if humidityHasBeenReported s = True then snd (readMeasurement s) else s);
          s2 = s1\<lparr>humidityHasBeenReported := True\<rparr>
      in (g_humidity s2, s2))"

definition getTemperature :: "driver \<Rightarrow> u32 \<times> driver" where
  "getTemperature s =
     (let s1 = (if temperatureHasBeenReported s = True then snd (readMeasurement s) else s);
          s2 = s1\<lparr>temperatureHasBeenReported := True\<rparr>
      in (g_temperature s2, s2))"

section \<open>Setters and modes\<close>

definition setAutoSelfCalibration :: "bool \<Rightarrow> driver \<Rightarrow> bool \<times> driver" where
  "setAutoSelfCalibration enable s =
     (let s1 = s\<lparr>g_asc := enable\<rparr>
      in if g_asc s1
         then sendCommand_args COMMAND_AUTOMATIC_SELF_CALIBRATION 1 s1
         else sendCommand_args COMMAND_AUTOMATIC_SELF_CALIBRATION 0 s1)"

text \<open>
  \<^verbatim>\<open>setTemperatureOffset(float tempOffset)\<close>: the two float computations, the test
  \<^verbatim>\<open>tempOffset < 0\<close> and the conversion \<^verbatim>\<open>int16_t tickOffset = tempOffset * 100\<close>, are
  the parameters \<open>negative\<close> and \<open>tickOffset\<close>.
\<close>

definition setTemperatureOffset :: "bool \<Rightarrow> u16 \<Rightarrow> driver \<Rightarrow> bool \<times> driver" where
  "setTemperatureOffset negative tickOffset s =
     (if negative then (False, s)
      else sendCommand_args COMMAND_SET_TEMPERATURE_OFFSET tickOffset s)"

text \<open>
  \<^verbatim>\<open>setAltitudeCompensation(uint16_t altitude)\<close>: the comparisons are made in
  \<^verbatim>\<open>int\<close>, to which the unsigned argument is promoted.
\<close>

definition setAltitudeCompensation :: "u16 \<Rightarrow> driver \<Rightarrow> bool \<times> driver" where
  "setAltitudeCompensation altitude s =
     (if uint altitude < - 1520 \<or> uint altitude > 3040 then (False, s)
      else sendCommand_args COMMAND_SET_ALTITUDE_COMPENSATION altitude s)"

definition beginMeasuring :: "u16 \<Rightarrow> driver \<Rightarrow> bool \<times> driver" where
  "beginMeasuring pressureOffset s =
     (let pressureOffset' =
            (if pressureOffset < 700 \<or> pressureOffset > 1200 then 0 else pressureOffset)
      in sendCommand_args COMMAND_CONTINUOUS_MEASUREMENT pressureOffset' s)"

definition beginMeasuring_void :: "driver \<Rightarrow> bool \<times> driver" where
  "beginMeasuring_void s = beginMeasuring 0 s"

definition setAmbientPressure :: "u16 \<Rightarrow> driver \<Rightarrow> bool \<times> driver" where
  "setAmbientPressure pressure_mbar s = beginMeasuring pressure_mbar s"

definition setForceRecalibration :: "u16 \<Rightarrow> driver \<Rightarrow> bool \<times> driver" where
  "setForceRecalibration val s =
     (if val < 400 \<or> val > 2000 then (False, s)
      else sendCommand_args COMMAND_SET_FORCED_RECALIBRATION_FACTOR val s)"

definition StopMeasurement :: "driver \<Rightarrow> bool \<times> driver" where
  "StopMeasurement s = sendCommand_cmd CMD_STOP_MEAS s"

definition setMeasurementInterval :: "u16 \<Rightarrow> driver \<Rightarrow> bool \<times> driver" where
  "setMeasurementInterval interval s =
     (if interval < 2 \<or> interval > 1800 then (False, s)
      else (let s1 = s\<lparr>g_interval := interval\<rparr>
            in sendCommand_args COMMAND_SET_MEASUREMENT_INTERVAL (g_interval s1) s1))"

definition begin_scd30 :: "driver \<Rightarrow> bool \<times> driver" where
  "begin_scd30 s =
     (if g_interval s > 0 then
        (case beginMeasuring_void s of
           (started, s1) \<Rightarrow>
             if started = True then
               (case setMeasurementInterval (g_interval s1) s1 of
                  (stored, s2) \<Rightarrow>
                    if stored = False then (False, s2)
                    else setAutoSelfCalibration (g_asc s2) s2)
             else setAutoSelfCalibration (g_asc s1) s1)
      else StopMeasurement s)"

text \<open>
  \<^verbatim>\<open>SCD30::begin(asc, interval)\<close>: saves both arguments, sets the port up
  (\<^verbatim>\<open>TWI.begin\<close> may fail), then initialises the sensor.
\<close>

definition SCD30_begin :: "bool \<Rightarrow> u16 \<Rightarrow> driver \<Rightarrow> bool \<times> driver" where
  "SCD30_begin asc interval s =
     (let s0 = s\<lparr>g_interval := interval, g_asc := asc\<rparr>
      in if twi_begin_ok s0 = False then (False, s0) else begin_scd30 s0)"

text \<open>
  The polling loop of \<^verbatim>\<open>SCD30::StartSingleMeasurement\<close>:
  \<^verbatim>\<open>do { stat = dataAvailable(); if (stat == false) { sleep(1); if (retry-- == 0) goto stop_sm; } } while (stat == false);\<close>
  \<open>retry\<close> is an \<^verbatim>\<open>int\<close> that starts at 10 and is only decremented while it is not 0,
  so it is a natural number here.
\<close>

function StartSingleMeasurement_poll :: "nat \<Rightarrow> driver \<Rightarrow> bool \<times> driver" where
  "StartSingleMeasurement_poll retry s =
     (case dataAvailable s of
        (stat, s1) \<Rightarrow>
          if stat = False then
            (let s2 = sleep 1 s1
             in if retry = 0 then (False, s2)
                else StartSingleMeasurement_poll (retry - 1) s2)
          else (stat, s1))"
  by pat_completeness auto
termination
  by (relation "measure (\<lambda>(retry, s). retry)") auto

declare StartSingleMeasurement_poll.simps [simp del]

definition StartSingleMeasurement :: "driver \<Rightarrow> bool \<times> driver" where
  "StartSingleMeasurement s =
     (let save_asc = g_asc s;
          save_interval = g_interval s;
          s0 = s\<lparr>g_asc := False, g_interval := 2\<rparr>;
          (stat, s3) =
            (case begin_scd30 s0 of
               (begun, s1) \<Rightarrow>
                 if begun = False then (False, s1)
                 else (case StartSingleMeasurement_poll 10 s1 of
                         (stat, s2) \<Rightarrow>
                           if stat = True then readMeasurement s2 else (stat, s2)));
          s4 = snd (StopMeasurement s3)
      in (stat, s4\<lparr>g_asc := save_asc, g_interval := save_interval\<rparr>))"

section \<open>Command line options\<close>

text \<open>
  The SCD30 parameters of \<^verbatim>\<open>struct scd_par\<close> (scd30.cpp). The \<^verbatim>\<open>int16_t\<close> fields
  are 16-bit words read with \<open>sint\<close>; \<open>-1\<close> means that the option was not given.
\<close>

record scd_par =
  scd_asc :: bool
  scd_stop_cm :: bool
  scd_perform_single :: bool
  scd_interval :: u16
  scd_frc :: u16
  scd_temp_offset :: u16
  scd_altitude :: u16
  scd_pressure :: u16

definition init_variables :: scd_par where
  "init_variables =
     \<lparr>scd_asc = True, scd_stop_cm = False, scd_perform_single = False, scd_interval = 2,
      scd_frc = - 1, scd_temp_offset = - 1, scd_altitude = - 1, scd_pressure = - 1\<rparr>"

text \<open>The options of \<^verbatim>\<open>parse_cmdline\<close> that set these parameters.\<close>

datatype scd_opt = Opt_a | Opt_n | Opt_m | Opt_p | Opt_i | Opt_o | Opt_f | Opt_S | Opt_k

text \<open>
  \<^verbatim>\<open>parse_cmdline(opt, option, scd)\<close> on these options. \<open>v\<close> is the 16-bit value
  that the cast of \<^verbatim>\<open>strtod(option, NULL)\<close> stores; \<open>None\<close> is
  \<^verbatim>\<open>exit(EXIT_FAILURE)\<close>.
\<close>

fun parse_cmdline :: "scd_opt \<Rightarrow> u16 \<Rightarrow> scd_par \<Rightarrow> scd_par option" where
  "parse_cmdline Opt_a v scd = Some (scd\<lparr>scd_asc := True\<rparr>)"
| "parse_cmdline Opt_n v scd = Some (scd\<lparr>scd_asc := False\<rparr>)"
| "parse_cmdline Opt_m v scd =
     (let scd1 = scd\<lparr>scd_altitude := v\<rparr>
      in if sint (scd_altitude scd1) < - 1520 \<or> sint (scd_altitude scd1) > 3040 then None
         else if sint (scd_pressure scd1) \<noteq> - 1 then None
         else Some scd1)"
| "parse_cmdline Opt_p v scd =
     (let scd1 = scd\<lparr>scd_pressure := v\<rparr>
      in if sint (scd_pressure scd1) \<noteq> 0 \<and>
            (sint (scd_pressure scd1) < 700 \<or> sint (scd_pressure scd1) > 1200) then None
         else if sint (scd_altitude scd1) \<noteq> - 1 then None
         else Some scd1)"
| "parse_cmdline Opt_i v scd =
     (let scd1 = scd\<lparr>scd_interval := v\<rparr>
      in if scd_interval scd1 < 2 \<or> scd_interval scd1 > 1800 then None else Some scd1)"
| "parse_cmdline Opt_o v scd =
     (let scd1 = scd\<lparr>scd_temp_offset := v\<rparr>
      in if sint (scd_temp_offset scd1) < 0 \<or> sint (scd_temp_offset scd1) > 25 then None
         else Some scd1)"
| "parse_cmdline Opt_f v scd =
     (let scd1 = scd\<lparr>scd_frc := v, scd_asc := False\<rparr>
      in if sint (scd_frc scd1) < 400 \<or> sint (scd_frc scd1) > 2000 then None
         else Some scd1)"
| "parse_cmdline Opt_S v scd = Some (scd\<lparr>scd_perform_single := True, scd_interval := 0\<rparr>)"
| "parse_cmdline Opt_k v scd = Some (scd\<lparr>scd_interval := 0\<rparr>)"

section \<open>Notions used in the statements\<close>

text \<open>
  The number of attempts a retry loop makes from call number \<open>n\<close> on, where \<open>ok i\<close>
  says that call \<open>i\<close> of the transport returns \<^verbatim>\<open>I2C_OK\<close>: it stops at the first
  success and after the fourth attempt.
\<close>

definition attempts :: "(nat \<Rightarrow> bool) \<Rightarrow> nat \<Rightarrow> nat" where
  "attempts ok n =
     (if ok n then 1 else if ok (n + 1) then 2 else if ok (n + 2) then 3 else 4)"

text \<open>The cached sample and its three flags, and the saved asc and interval.\<close>

definition sample_of :: "driver \<Rightarrow> (u32 \<times> u32 \<times> u32) \<times> (bool \<times> bool \<times> bool)" where
  "sample_of s =
     ((g_co2 s, g_temperature s, g_humidity s),
      (co2HasBeenReported s, temperatureHasBeenReported s, humidityHasBeenReported s))"

definition shadow_of :: "driver \<Rightarrow> bool \<times> u16" where
  "shadow_of s = (g_asc s, g_interval s)"

text \<open>
  \<open>bus_grows\<close>: the environment is the same and the bus has been used, its log only
  extended. \<open>bus_only\<close>: moreover the cached sample and the saved settings are as
  they were.
\<close>

definition bus_grows :: "driver \<Rightarrow> driver \<Rightarrow> bool" where
  "bus_grows s s' =
     (twi_begin_ok s' = twi_begin_ok s \<and> write_result s' = write_result s \<and>
      read_result s' = read_result s \<and> n_write s \<le> n_write s' \<and> n_read s \<le> n_read s' \<and>
      prefix (bus_log s) (bus_log s'))"

definition bus_only :: "driver \<Rightarrow> driver \<Rightarrow> bool" where
  "bus_only s s' =
     (bus_grows s s' \<and> sample_of s' = sample_of s \<and> shadow_of s' = shadow_of s)"

text \<open>
  The 18-byte measurement response: three fields of two groups each, a group being two
  data bytes and their CRC. \<open>field32 buff i\<close> is the big-endian 32-bit value of the
  four data bytes of the field that starts at \<open>i\<close>; \<open>group_ok buff i\<close> says that the
  CRC byte of the group at \<open>i\<close> matches.
\<close>

definition be32 :: "u8 \<Rightarrow> u8 \<Rightarrow> u8 \<Rightarrow> u8 \<Rightarrow> u32" where
  "be32 a b c d =
     push_bit 24 (ucast a) OR push_bit 16 (ucast b) OR push_bit 8 (ucast c) OR ucast d"

definition field32 :: "u8 list \<Rightarrow> nat \<Rightarrow> u32" where
  "field32 buff i = be32 (buff ! i) (buff ! (i + 1)) (buff ! (i + 3)) (buff ! (i + 4))"

definition group_ok :: "u8 list \<Rightarrow> nat \<Rightarrow> bool" where
  "group_ok buff i = checkCrc [buff ! i, buff ! (i + 1)] 2 (buff ! (i + 2))"

definition response_ok :: "u8 list \<Rightarrow> bool" where
  "response_ok buff =
     (group_ok buff 0 \<and> group_ok buff 3 \<and> group_ok buff 6 \<and> group_ok buff 9 \<and>
      group_ok buff 12 \<and> group_ok buff 15)"

subsection \<open>Concrete drivers and environments\<close>

text \<open>
  The initial values of the globals of scd30\_lib.cpp, on a port that opens, with the
  transport given by \<open>wr\<close> and \<open>rd\<close>.
\<close>

definition init_driver :: "(nat \<Rightarrow> Wstatus) \<Rightarrow> (nat \<Rightarrow> Wstatus \<times> u8 list) \<Rightarrow> driver" where
  "init_driver wr rd =
     \<lparr>g_co2 = 0, g_temperature = 0, g_humidity = 0, g_asc = True, g_interval = 2,
      co2HasBeenReported = True, humidityHasBeenReported = True,
      temperatureHasBeenReported = True, twi_begin_ok = True,
      write_result = wr, read_result = rd, n_write = 0, n_read = 0, bus_log = []\<rparr>"

definition writes_ok :: "nat \<Rightarrow> Wstatus" where
  "writes_ok n = I2C_OK"

definition writes_nack :: "nat \<Rightarrow> Wstatus" where
  "writes_nack n = I2C_SDA_NACK"

text \<open>The first four writes are not acknowledged, every later one is.\<close>

definition writes_nack4 :: "nat \<Rightarrow> Wstatus" where
  "writes_nack4 n = (if n < 4 then I2C_SDA_NACK else I2C_OK)"

definition reads_nack :: "nat \<Rightarrow> Wstatus \<times> u8 list" where
  "reads_nack n = (I2C_SDA_NACK, [])"

text \<open>Every read answers the data-ready query with "not ready" (0x0000 and its CRC).\<close>

definition reads_not_ready :: "nat \<Rightarrow> Wstatus \<times> u8 list" where
  "reads_not_ready n = (I2C_OK, [0x00, 0x00, 0x81])"

text \<open>
  The first read answers "ready" (0x0001 and its CRC), the following ones deliver a
  sample: CO2 0x43DB8C2E (439.09 ppm), temperature 0x41D9E7FF, humidity 0x42433A1B.
\<close>

definition sample_bytes :: "u8 list" where
  "sample_bytes =
     [0x43, 0xDB, 0xCB, 0x8C, 0x2E, 0x8F, 0x41, 0xD9, 0x70, 0xE7, 0xFF, 0xF5,
      0x42, 0x43, 0xBF, 0x3A, 0x1B, 0x74]"

definition reads_sample :: "nat \<Rightarrow> Wstatus \<times> u8 list" where
  "reads_sample n = (if n = 0 then (I2C_OK, [0x00, 0x01, 0xB0]) else (I2C_OK, sample_bytes))"

text \<open>The first two reads answer "ready", the following ones deliver the sample.\<close>

definition reads_sample2 :: "nat \<Rightarrow> Wstatus \<times> u8 list" where
  "reads_sample2 n = (if n < 2 then (I2C_OK, [0x00, 0x01, 0xB0]) else (I2C_OK, sample_bytes))"

text \<open>The same, with the last CRC byte of the sample corrupted.\<close>

definition reads_bad_crc :: "nat \<Rightarrow> Wstatus \<times> u8 list" where
  "reads_bad_crc n =
     (if n = 0 then (I2C_OK, [0x00, 0x01, 0xB0]) else (I2C_OK, sample_bytes[17 := 0x75]))"

text \<open>The first read answers "ready", every later read is not acknowledged.\<close>

definition reads_ready_then_nack :: "nat \<Rightarrow> Wstatus \<times> u8 list" where
  "reads_ready_then_nack n = (if n = 0 then (I2C_OK, [0x00, 0x01, 0xB0]) else (I2C_SDA_NACK, []))"

text \<open>The first write is acknowledged, every later one is not.\<close>

definition writes_first_ok :: "nat \<Rightarrow> Wstatus" where
  "writes_first_ok n = (if n = 0 then I2C_OK else I2C_SDA_NACK)"

text \<open>
  The conversion of \<^verbatim>\<open>getCO2\<close> on the two patterns the examples meet: 0x43DB8C2E is
  the float 439.09, which converts to 439, and 0 is 0.0.
\<close>

definition to_uint16_sample :: "u32 \<Rightarrow> u16" where
  "to_uint16_sample bits = (if bits = 0x43DB8C2E then 439 else 0)"

section \<open>Facts about the model\<close>

lemmas command_defs =
  COMMAND_CONTINUOUS_MEASUREMENT_def COMMAND_SET_MEASUREMENT_INTERVAL_def
  COMMAND_GET_DATA_READY_def COMMAND_READ_MEASUREMENT_def
  COMMAND_AUTOMATIC_SELF_CALIBRATION_def COMMAND_SET_FORCED_RECALIBRATION_FACTOR_def
  COMMAND_SET_TEMPERATURE_OFFSET_def COMMAND_SET_ALTITUDE_COMPENSATION_def CMD_STOP_MEAS_def

subsection \<open>The checksum loops\<close>

lemma high_bit: "(crc AND 0x80 \<noteq> 0) = bit (crc::u8) 7"
proof -
  have "(0x80::u8) = 2 ^ 7" by simp
  then show ?thesis by (simp only: and_exp_eq_0_iff_not_bit) simp
qed

lemma round_eq:
  "(if crc AND 0x80 \<noteq> 0 then push_bit 1 crc XOR 0x31 else push_bit 1 crc) = spec_round crc"
  unfolding spec_round_def high_bit ..

lemma bits_round: "i \<le> 8 \<Longrightarrow> computeCRC8_bits i crc = (spec_round ^^ (8 - i)) crc"
proof (induction i crc rule: computeCRC8_bits.induct)
  case (1 i crc)
  show ?case
  proof (cases "i < 8")
    case True
    then have s: "8 - i = Suc (8 - (i + 1))" by simp
    have "computeCRC8_bits i crc = computeCRC8_bits (i + 1) (spec_round crc)"
      using True by (subst computeCRC8_bits.simps) (simp only: round_eq if_True)
    also have "\<dots> = (spec_round ^^ (8 - (i + 1))) (spec_round crc)"
      using 1 True by (simp add: round_eq)
    also have "\<dots> = (spec_round ^^ (8 - i)) crc"
      by (simp only: s funpow_Suc_right o_apply)
    finally show ?thesis .
  next
    case False
    with 1 show ?thesis by (subst computeCRC8_bits.simps) simp
  qed
qed

lemma bytes_fold:
  "x \<le> len \<Longrightarrow> len \<le> length data \<Longrightarrow>
   computeCRC8_bytes data len x crc =
     foldl (\<lambda>acc b. (spec_round ^^ 8) (acc XOR b)) crc (drop x (take len data))"
proof (induction data len x crc rule: computeCRC8_bytes.induct)
  case (1 data len x crc)
  show ?case
  proof (cases "x < len")
    case True
    then have "x < length (take len data)" using 1(3) by simp
    then have d: "drop x (take len data) = data ! x # drop (x + 1) (take len data)"
      using True by (simp flip: Cons_nth_drop_Suc)
    from True 1 show ?thesis
      by (subst computeCRC8_bytes.simps) (simp add: d bits_round del: funpow.simps)
  next
    case False
    with 1 show ?thesis by (subst computeCRC8_bytes.simps) simp
  qed
qed

lemma computeCRC8_spec_compute:
  "length d < 256 \<Longrightarrow> computeCRC8 d (of_nat (length d)) = spec_compute d"
  by (simp add: computeCRC8_def spec_compute_def bytes_fold unat_of_nat)

subsection \<open>The retry loops\<close>

lemma status_ok_iff: "status_ok r = (r = I2C_OK)"
  by (cases r) simp_all

lemma sendCommand_loop_0:
  "sendCommand_loop frame 0 s =
     (write_result s (n_write s) = I2C_OK,
      s\<lparr>n_write := n_write s + 1, bus_log := bus_log s @ [I2cWrite frame]\<rparr>)"
  by (subst sendCommand_loop.simps) (simp add: i2c_write_def status_ok_iff)

lemma sendCommand_loop_step:
  "0 < retry \<Longrightarrow> sendCommand_loop frame retry s =
     (if write_result s (n_write s) = I2C_OK
      then (True, s\<lparr>n_write := n_write s + 1, bus_log := bus_log s @ [I2cWrite frame]\<rparr>)
      else sendCommand_loop frame (retry - 1)
             (s\<lparr>n_write := n_write s + 1, bus_log := bus_log s @ [I2cWrite frame]\<rparr>))"
  by (subst sendCommand_loop.simps) (simp add: i2c_write_def status_ok_iff)

lemma sendCommand_loop_3:
  "sendCommand_loop frame 3 s =
     (write_result s (n_write s) = I2C_OK \<or> write_result s (n_write s + 1) = I2C_OK \<or>
      write_result s (n_write s + 2) = I2C_OK \<or> write_result s (n_write s + 3) = I2C_OK,
      s\<lparr>n_write := n_write s + attempts (\<lambda>i. write_result s i = I2C_OK) (n_write s),
        bus_log := bus_log s @
          replicate (attempts (\<lambda>i. write_result s i = I2C_OK) (n_write s)) (I2cWrite frame)\<rparr>)"
  by (simp add: sendCommand_loop_step sendCommand_loop_0 attempts_def numeral_eq_Suc)

lemma sendCommand_eq:
  "sendCommand command arguments len s =
     (write_result s (n_write s) = I2C_OK \<or> write_result s (n_write s + 1) = I2C_OK \<or>
      write_result s (n_write s + 2) = I2C_OK \<or> write_result s (n_write s + 3) = I2C_OK,
      s\<lparr>n_write := n_write s + attempts (\<lambda>i. write_result s i = I2C_OK) (n_write s),
        bus_log := bus_log s @
          replicate (attempts (\<lambda>i. write_result s i = I2C_OK) (n_write s))
            (I2cWrite (sendCommand_buff command arguments len))\<rparr>)"
  by (simp only: sendCommand_def sendCommand_loop_3)

lemma readbytes_loop_0:
  "readbytes_loop len 0 s =
     (fst (read_result s (n_read s)) = I2C_OK,
      take len (snd (read_result s (n_read s)) @ replicate len 0),
      s\<lparr>n_read := n_read s + 1, bus_log := bus_log s @ [I2cRead len]\<rparr>)"
  by (subst readbytes_loop.simps) (simp add: i2c_read_def status_ok_iff split: prod.split)

lemma readbytes_loop_step:
  "0 < retry \<Longrightarrow> readbytes_loop len retry s =
     (if fst (read_result s (n_read s)) = I2C_OK
      then (True, take len (snd (read_result s (n_read s)) @ replicate len 0),
            s\<lparr>n_read := n_read s + 1, bus_log := bus_log s @ [I2cRead len]\<rparr>)
      else readbytes_loop len (retry - 1)
             (s\<lparr>n_read := n_read s + 1, bus_log := bus_log s @ [I2cRead len]\<rparr>))"
  by (subst readbytes_loop.simps) (simp add: i2c_read_def status_ok_iff split: prod.split)

lemma readbytes_eq:
  "readbytes len s =
     (fst (read_result s (n_read s)) = I2C_OK \<or> fst (read_result s (n_read s + 1)) = I2C_OK \<or>
      fst (read_result s (n_read s + 2)) = I2C_OK \<or> fst (read_result s (n_read s + 3)) = I2C_OK,
      take (unat len)
        (snd (read_result s
               (n_read s + attempts (\<lambda>i. fst (read_result s i) = I2C_OK) (n_read s) - 1)) @
         replicate (unat len) 0),
      s\<lparr>n_read := n_read s + attempts (\<lambda>i. fst (read_result s i) = I2C_OK) (n_read s),
        bus_log := bus_log s @
          replicate (attempts (\<lambda>i. fst (read_result s i) = I2C_OK) (n_read s))
            (I2cRead (unat len))\<rparr>)"
  unfolding readbytes_def
  by (simp add: readbytes_loop_step readbytes_loop_0 attempts_def numeral_eq_Suc)


lemma bus_grows_refl: "bus_grows s s"
  by (simp add: bus_grows_def)

lemma bus_grows_trans: "bus_grows s s1 \<Longrightarrow> bus_grows s1 s2 \<Longrightarrow> bus_grows s s2"
  by (auto simp add: bus_grows_def)

lemma bus_only_refl: "bus_only s s"
  by (simp add: bus_only_def bus_grows_refl)

lemma bus_only_trans: "bus_only s s1 \<Longrightarrow> bus_only s1 s2 \<Longrightarrow> bus_only s s2"
  by (auto simp add: bus_only_def intro: bus_grows_trans)

lemma bus_only_sendCommand: "bus_only s (snd (sendCommand command arguments len s))"
  by (simp add: sendCommand_eq bus_only_def bus_grows_def sample_of_def shadow_of_def)

lemma bus_only_readbytes: "bus_only s (snd (snd (readbytes len s)))"
  by (simp add: readbytes_eq bus_only_def bus_grows_def sample_of_def shadow_of_def)

lemma bus_only_sendCommand_cmd: "bus_only s (snd (sendCommand_cmd command s))"
  by (simp add: sendCommand_cmd_def bus_only_sendCommand)

lemma bus_only_sendCommand_args: "bus_only s (snd (sendCommand_args command arguments s))"
  by (simp add: sendCommand_args_def bus_only_sendCommand)

lemma bus_only_dataAvailable: "bus_only s (snd (dataAvailable s))"
proof -
  obtain sent s1 where e1: "sendCommand_cmd COMMAND_GET_DATA_READY s = (sent, s1)"
    by (cases "sendCommand_cmd COMMAND_GET_DATA_READY s")
  obtain got data s2 where e2: "readbytes 3 s1 = (got, data, s2)"
    by (cases "readbytes 3 s1")
  have a: "bus_only s s1"
    using bus_only_sendCommand_cmd [of s COMMAND_GET_DATA_READY] by (simp add: e1)
  have "bus_only s1 s2"
    using bus_only_readbytes [of s1 3] by (simp add: e2)
  with a have b: "bus_only s s2" by (rule bus_only_trans)
  show ?thesis
    by (simp add: dataAvailable_def e1 e2 a b)
qed

subsection \<open>Frames, setters and fixtures\<close>

lemma init_driver_sel:
  "g_co2 (init_driver wr rd) = 0" "g_temperature (init_driver wr rd) = 0"
  "g_humidity (init_driver wr rd) = 0" "g_asc (init_driver wr rd) = True"
  "g_interval (init_driver wr rd) = 2" "co2HasBeenReported (init_driver wr rd) = True"
  "humidityHasBeenReported (init_driver wr rd) = True"
  "temperatureHasBeenReported (init_driver wr rd) = True"
  "twi_begin_ok (init_driver wr rd) = True" "write_result (init_driver wr rd) = wr"
  "read_result (init_driver wr rd) = rd" "n_write (init_driver wr rd) = 0"
  "n_read (init_driver wr rd) = 0" "bus_log (init_driver wr rd) = []"
  by (simp_all add: init_driver_def)

lemma replicate_small:
  "replicate 1 x = [x]" "replicate 2 x = [x, x]" "replicate 3 x = [x, x, x]"
  "replicate 4 x = [x, x, x, x]"
  by (simp_all add: numeral_eq_Suc)

lemma buff_stop: "sendCommand_buff CMD_STOP_MEAS 0 2 = [0x01, 0x04]"
  by (simp add: sendCommand_buff_def CMD_STOP_MEAS_def)

lemma crc_00: "computeCRC8 [0, 0] 2 = 0x81"
  by code_simp

lemma buff_start_0: "sendCommand_buff COMMAND_CONTINUOUS_MEASUREMENT 0 5 = [0x00, 0x10, 0x00, 0x00, 0x81]"
  by (simp add: sendCommand_buff_def COMMAND_CONTINUOUS_MEASUREMENT_def crc_00)

lemma fst_sendCommand_args:
  "fst (sendCommand_args command arguments s) =
     (write_result s (n_write s) = I2C_OK \<or> write_result s (n_write s + 1) = I2C_OK \<or>
      write_result s (n_write s + 2) = I2C_OK \<or> write_result s (n_write s + 3) = I2C_OK)"
  by (simp add: sendCommand_args_def sendCommand_eq)

lemma n_write_sendCommand: "n_write s < n_write (snd (sendCommand command arguments len s))"
  by (simp add: sendCommand_eq attempts_def)

lemma altitude_check: "(uint (altitude :: u16) < - 1520 \<or> uint altitude > 3040) = (altitude > 3040)"
proof -
  have "\<not> uint altitude < - 1520"
    using uint_ge_0 [of altitude] by linarith
  moreover have "(uint altitude > 3040) = (altitude > 3040)"
    by (simp add: word_less_def)
  ultimately show ?thesis by simp
qed

lemma bus_only_beginMeasuring: "bus_only s (snd (beginMeasuring pressureOffset s))"
  by (simp add: beginMeasuring_def bus_only_sendCommand_args)

lemma bus_only_setAmbientPressure: "bus_only s (snd (setAmbientPressure pressure_mbar s))"
  by (simp add: setAmbientPressure_def bus_only_beginMeasuring)

lemma bus_only_setAltitudeCompensation: "bus_only s (snd (setAltitudeCompensation altitude s))"
  by (simp add: setAltitudeCompensation_def bus_only_sendCommand_args bus_only_refl)

lemma bus_only_setForceRecalibration: "bus_only s (snd (setForceRecalibration val s))"
  by (simp add: setForceRecalibration_def bus_only_sendCommand_args bus_only_refl)

lemma bus_only_setTemperatureOffset: "bus_only s (snd (setTemperatureOffset negative tickOffset s))"
  by (simp add: setTemperatureOffset_def bus_only_sendCommand_args bus_only_refl)

lemma bus_only_StopMeasurement: "bus_only s (snd (StopMeasurement s))"
  by (simp add: StopMeasurement_def bus_only_sendCommand_cmd)

lemma bus_only_shadow: "bus_only s s' \<Longrightarrow> g_asc s' = g_asc s \<and> g_interval s' = g_interval s"
  by (simp add: bus_only_def shadow_of_def)

lemma sint_eq_minus_1: "(sint (x :: u16) = - 1) = (x = - 1)"
  using word_eq_iff_signed [where 'a = int, of x "- 1"] by simp

lemma fst_setAmbientPressure:
  "fst (setAmbientPressure pressure_mbar s) =
     (write_result s (n_write s) = I2C_OK \<or> write_result s (n_write s + 1) = I2C_OK \<or>
      write_result s (n_write s + 2) = I2C_OK \<or> write_result s (n_write s + 3) = I2C_OK)"
  by (simp add: setAmbientPressure_def beginMeasuring_def fst_sendCommand_args)

lemma fst_setAltitudeCompensation:
  "fst (setAltitudeCompensation altitude s) =
     (altitude \<le> 3040 \<and>
      (write_result s (n_write s) = I2C_OK \<or> write_result s (n_write s + 1) = I2C_OK \<or>
       write_result s (n_write s + 2) = I2C_OK \<or> write_result s (n_write s + 3) = I2C_OK))"
  by (auto simp add: setAltitudeCompensation_def altitude_check fst_sendCommand_args)

lemma init_variables_sel:
  "scd_asc init_variables = True" "scd_interval init_variables = 2"
  "scd_frc init_variables = - 1" "scd_altitude init_variables = - 1"
  "scd_pressure init_variables = - 1" "scd_temp_offset init_variables = - 1"
  by (simp_all add: init_variables_def)

lemma setMeasurementInterval_valid:
  "\<not> (iv < 2 \<or> iv > 1800) \<Longrightarrow>
   setMeasurementInterval iv s =
     sendCommand_args COMMAND_SET_MEASUREMENT_INTERVAL iv (s\<lparr>g_interval := iv\<rparr>)"
  by (simp add: setMeasurementInterval_def Let_def)

lemma setAutoSelfCalibration_eq:
  "setAutoSelfCalibration enable s =
     sendCommand_args COMMAND_AUTOMATIC_SELF_CALIBRATION (if enable then 1 else 0)
       (s\<lparr>g_asc := enable\<rparr>)"
  by (simp add: setAutoSelfCalibration_def Let_def)

lemma bus_grows_setMeasurementInterval: "bus_grows s (snd (setMeasurementInterval iv s))"
proof (cases "iv < 2 \<or> iv > 1800")
  case True
  then show ?thesis by (simp add: setMeasurementInterval_def bus_grows_refl)
next
  case False
  have "bus_only (s\<lparr>g_interval := iv\<rparr>)
          (snd (sendCommand_args COMMAND_SET_MEASUREMENT_INTERVAL iv (s\<lparr>g_interval := iv\<rparr>)))"
    by (rule bus_only_sendCommand_args)
  then show ?thesis
    using False by (simp add: setMeasurementInterval_valid bus_only_def bus_grows_def)
qed

lemma setMeasurementInterval_shadow:
  "g_asc (snd (setMeasurementInterval iv s)) = g_asc s \<and>
   sample_of (snd (setMeasurementInterval iv s)) = sample_of s \<and>
   g_interval (snd (setMeasurementInterval iv s)) = (if iv < 2 \<or> iv > 1800 then g_interval s else iv)"
proof (cases "iv < 2 \<or> iv > 1800")
  case True
  then show ?thesis by (simp add: setMeasurementInterval_def)
next
  case False
  have "bus_only (s\<lparr>g_interval := iv\<rparr>)
          (snd (sendCommand_args COMMAND_SET_MEASUREMENT_INTERVAL iv (s\<lparr>g_interval := iv\<rparr>)))"
    by (rule bus_only_sendCommand_args)
  then show ?thesis
    using False
    by (simp add: setMeasurementInterval_valid bus_only_def shadow_of_def sample_of_def)
qed

lemma bus_grows_setAutoSelfCalibration: "bus_grows s (snd (setAutoSelfCalibration enable s))"
proof -
  have "bus_only (s\<lparr>g_asc := enable\<rparr>)
          (snd (sendCommand_args COMMAND_AUTOMATIC_SELF_CALIBRATION (if enable then 1 else 0)
                 (s\<lparr>g_asc := enable\<rparr>)))"
    by (rule bus_only_sendCommand_args)
  then show ?thesis
    by (simp add: setAutoSelfCalibration_eq bus_only_def bus_grows_def)
qed

lemma setAutoSelfCalibration_shadow:
  "g_asc (snd (setAutoSelfCalibration enable s)) = enable \<and>
   g_interval (snd (setAutoSelfCalibration enable s)) = g_interval s \<and>
   sample_of (snd (setAutoSelfCalibration enable s)) = sample_of s"
proof -
  have "bus_only (s\<lparr>g_asc := enable\<rparr>)
          (snd (sendCommand_args COMMAND_AUTOMATIC_SELF_CALIBRATION (if enable then 1 else 0)
                 (s\<lparr>g_asc := enable\<rparr>)))"
    by (rule bus_only_sendCommand_args)
  then show ?thesis
    by (simp add: setAutoSelfCalibration_eq bus_only_def shadow_of_def sample_of_def)
qed

section \<open>The checksum codec\<close>

text \<open>
  C1. For every byte sequence \<open>d\<close> that \<^verbatim>\<open>computeCRC8\<close> can be given with its length
  (the length is a \<^verbatim>\<open>uint8_t\<close>), the result is the checksum the specification
  describes (seed 0xFF, each byte XORed in, 8 rounds of shift and conditional XOR with
  0x31, nothing done to the output); it depends on the bytes only, so equal inputs give
  equal outputs; \<^verbatim>\<open>checkCrc\<close> accepts the computed checksum, and accepts a received
  byte exactly when the specification's \<open>verify\<close> does.
\<close>

theorem computeCRC8_follows_spec:
  assumes "length d < 256"
  shows "computeCRC8 d (of_nat (length d)) = spec_compute d \<and>
         checkCrc d (of_nat (length d)) (computeCRC8 d (of_nat (length d))) = True \<and>
         (\<forall>r. checkCrc d (of_nat (length d)) r = spec_verify d r) \<and>
         (\<forall>d'. d' = d \<longrightarrow>
            computeCRC8 d' (of_nat (length d')) = computeCRC8 d (of_nat (length d)))"
proof -
  have c: "computeCRC8 d (of_nat (length d)) = spec_compute d"
    using assms by (rule computeCRC8_spec_compute)
  have "checkCrc d (of_nat (length d)) r = spec_verify d r" for r
    by (auto simp add: checkCrc_def spec_verify_def c)
  then show ?thesis
    by (simp add: c checkCrc_def)
qed

theorem computeCRC8_follows_spec_witness:
  "length [0xBE, 0xEF :: u8] < 256 \<and> computeCRC8 [0xBE, 0xEF] 2 = 0x92 \<and>
   spec_compute [0xBE, 0xEF] = 0x92 \<and> checkCrc [0xBE, 0xEF] 2 0x92 = True \<and>
   spec_verify [0xBE, 0xEF] 0x93 = False"
proof -
  have c: "computeCRC8 [0xBE, 0xEF] 2 = 0x92"
    by code_simp
  have l: "length [0xBE, 0xEF :: u8] < 256"
    by simp
  have n: "of_nat (length [0xBE, 0xEF :: u8]) = (2 :: u8)"
    by simp
  from computeCRC8_follows_spec [OF l] show ?thesis
    unfolding n by (simp add: c spec_verify_def)
qed

section \<open>Initialisation\<close>

text \<open>What \<^verbatim>\<open>begin_scd30\<close> does in each of its cases.\<close>

lemma begin_scd30_stop: "\<not> g_interval s > 0 \<Longrightarrow> begin_scd30 s = StopMeasurement s"
  by (simp add: begin_scd30_def)

lemma begin_scd30_start_fails:
  "g_interval s > 0 \<Longrightarrow> beginMeasuring_void s = (False, s1) \<Longrightarrow>
   begin_scd30 s = setAutoSelfCalibration (g_asc s1) s1"
  by (simp add: begin_scd30_def)

lemma begin_scd30_interval_fails:
  "g_interval s > 0 \<Longrightarrow> beginMeasuring_void s = (True, s1) \<Longrightarrow>
   setMeasurementInterval (g_interval s1) s1 = (False, s2) \<Longrightarrow>
   begin_scd30 s = (False, s2)"
  by (simp add: begin_scd30_def)

lemma begin_scd30_all:
  "g_interval s > 0 \<Longrightarrow> beginMeasuring_void s = (True, s1) \<Longrightarrow>
   setMeasurementInterval (g_interval s1) s1 = (True, s2) \<Longrightarrow>
   begin_scd30 s = setAutoSelfCalibration (g_asc s2) s2"
  by (simp add: begin_scd30_def)


lemma crc_01: "computeCRC8 [0, 1] 2 = 0xB0"
  by code_simp

lemma buff_asc_1: "sendCommand_buff COMMAND_AUTOMATIC_SELF_CALIBRATION 1 5 = [0x53, 0x06, 0x00, 0x01, 0xB0]"
  by (simp add: sendCommand_buff_def COMMAND_AUTOMATIC_SELF_CALIBRATION_def crc_01)

text \<open>
  The failed start in general: whenever the four attempts to start fail and the next
  write is acknowledged, \<^verbatim>\<open>begin_scd30\<close> returns true.
\<close>

lemma begin_scd30_start_fails_returns_true:
  assumes "g_interval s > 0"
    and "write_result s (n_write s) \<noteq> I2C_OK" and "write_result s (n_write s + 1) \<noteq> I2C_OK"
    and "write_result s (n_write s + 2) \<noteq> I2C_OK" and "write_result s (n_write s + 3) \<noteq> I2C_OK"
    and "write_result s (n_write s + 4) = I2C_OK"
  shows "fst (begin_scd30 s) = True"
  using assms
  by (simp add: begin_scd30_def beginMeasuring_void_def beginMeasuring_def
      setAutoSelfCalibration_eq sendCommand_args_def sendCommand_eq attempts_def)

text \<open>
  C2. The claim holds where the interval is 0 (only stop-measurement is sent) and where
  setting the interval fails (false is returned and nothing more is sent), but not where
  the start fails: \<^verbatim>\<open>begin_scd30\<close> then goes on to set the auto-self-calibration
  and returns that result. Here the four attempts to start continuous measurement are
  not acknowledged and the fifth write is: the start frame is written four times, then
  the auto-self-calibration frame, and \<^verbatim>\<open>begin\<close> returns true.
\<close>

theorem begin_start_failure_reports_success:
  "fst (SCD30_begin True 2 (init_driver writes_nack4 reads_nack)) = True \<and>
   bus_log (snd (SCD30_begin True 2 (init_driver writes_nack4 reads_nack))) =
     [I2cWrite [0x00, 0x10, 0x00, 0x00, 0x81], I2cWrite [0x00, 0x10, 0x00, 0x00, 0x81],
      I2cWrite [0x00, 0x10, 0x00, 0x00, 0x81], I2cWrite [0x00, 0x10, 0x00, 0x00, 0x81],
      I2cWrite [0x53, 0x06, 0x00, 0x01, 0xB0]]"
  by (simp add: SCD30_begin_def begin_scd30_def beginMeasuring_void_def beginMeasuring_def
      setAutoSelfCalibration_eq sendCommand_args_def sendCommand_eq init_driver_sel
      writes_nack4_def attempts_def Let_def buff_start_0 buff_asc_1 replicate_small)

section \<open>The transaction executor\<close>

text \<open>
  C3, as the code has it. A send and a receive make at most 4 attempts, the first and
  up to 3 retries. Every status other than \<^verbatim>\<open>I2C_OK\<close> is retried alike, a NACK
  included: the transaction succeeds at the first attempt that returns \<^verbatim>\<open>I2C_OK\<close>,
  and reports failure only when four attempts in a row have failed. Each attempt writes
  the same frame (reads the same length).
\<close>

theorem retry_policy:
  "fst (sendCommand command arguments len s) =
     (write_result s (n_write s) = I2C_OK \<or> write_result s (n_write s + 1) = I2C_OK \<or>
      write_result s (n_write s + 2) = I2C_OK \<or> write_result s (n_write s + 3) = I2C_OK) \<and>
   n_write (snd (sendCommand command arguments len s)) =
     n_write s + attempts (\<lambda>i. write_result s i = I2C_OK) (n_write s) \<and>
   bus_log (snd (sendCommand command arguments len s)) =
     bus_log s @ replicate (attempts (\<lambda>i. write_result s i = I2C_OK) (n_write s))
                   (I2cWrite (sendCommand_buff command arguments len)) \<and>
   (write_result s (n_write s) = I2C_SDA_NACK \<longrightarrow>
      n_write s + 2 \<le> n_write (snd (sendCommand command arguments len s))) \<and>
   fst (readbytes rlen s) =
     (fst (read_result s (n_read s)) = I2C_OK \<or> fst (read_result s (n_read s + 1)) = I2C_OK \<or>
      fst (read_result s (n_read s + 2)) = I2C_OK \<or> fst (read_result s (n_read s + 3)) = I2C_OK) \<and>
   n_read (snd (snd (readbytes rlen s))) =
     n_read s + attempts (\<lambda>i. fst (read_result s i) = I2C_OK) (n_read s) \<and>
   bus_log (snd (snd (readbytes rlen s))) =
     bus_log s @ replicate (attempts (\<lambda>i. fst (read_result s i) = I2C_OK) (n_read s))
                   (I2cRead (unat rlen)) \<and>
   (fst (read_result s (n_read s)) = I2C_SDA_NACK \<longrightarrow>
      n_read s + 2 \<le> n_read (snd (snd (readbytes rlen s)))) \<and>
   1 \<le> attempts ok n \<and> attempts ok n \<le> 4"
  by (simp add: sendCommand_eq readbytes_eq attempts_def)

theorem retry_policy_witness:
  "fst (sendCommand CMD_STOP_MEAS 0 2 (init_driver writes_nack reads_nack)) = False \<and>
   n_write (snd (sendCommand CMD_STOP_MEAS 0 2 (init_driver writes_nack reads_nack))) = 4 \<and>
   fst (sendCommand CMD_STOP_MEAS 0 2 (init_driver writes_nack4 reads_nack\<lparr>n_write := 2\<rparr>)) = True \<and>
   n_write (snd (sendCommand CMD_STOP_MEAS 0 2 (init_driver writes_nack4 reads_nack\<lparr>n_write := 2\<rparr>))) = 5 \<and>
   n_read (snd (snd (readbytes 3 (init_driver writes_nack reads_nack)))) = 4"
  using retry_policy [of CMD_STOP_MEAS 0 2 "init_driver writes_nack reads_nack" 3 "\<lambda>i. True" 0]
    retry_policy [of CMD_STOP_MEAS 0 2 "init_driver writes_nack4 reads_nack\<lparr>n_write := 2\<rparr>" 3 "\<lambda>i. True" 0]
  by (simp add: init_driver_def writes_nack_def writes_nack4_def reads_nack_def attempts_def)

text \<open>
  C3 as stated fails: on a bus that answers every write and every read with a NACK,
  the NACK is not terminal; the frame is written four times and the read is asked for
  four times.
\<close>

theorem nack_is_retried_counterexample:
  "write_result (init_driver writes_nack reads_nack) 0 = I2C_SDA_NACK \<and>
   bus_log (snd (sendCommand_cmd CMD_STOP_MEAS (init_driver writes_nack reads_nack))) =
     [I2cWrite [0x01, 0x04], I2cWrite [0x01, 0x04], I2cWrite [0x01, 0x04], I2cWrite [0x01, 0x04]] \<and>
   fst (read_result (init_driver writes_nack reads_nack) 0) = I2C_SDA_NACK \<and>
   bus_log (snd (snd (readbytes 3 (init_driver writes_nack reads_nack)))) =
     [I2cRead 3, I2cRead 3, I2cRead 3, I2cRead 3]"
  by (simp add: sendCommand_cmd_def sendCommand_eq readbytes_eq buff_stop init_driver_def
      writes_nack_def reads_nack_def attempts_def replicate_small)

section \<open>Reading a measurement\<close>

lemma readbytes_result:
  assumes "readbytes len s = (got, buff, s')"
  shows "bus_only s s' \<and> n_read s < n_read s' \<and>
         buff = take (unat len) (snd (read_result s (n_read s' - 1)) @ replicate (unat len) 0)"
proof -
  have a: "1 \<le> attempts (\<lambda>i. fst (read_result s i) = I2C_OK) (n_read s)"
    by (simp add: attempts_def)
  have b: "bus_only s (snd (snd (readbytes len s)))"
    by (rule bus_only_readbytes)
  from assms a b show ?thesis
    by (auto simp add: readbytes_eq)
qed

lemma sendCommand_cmd_result:
  assumes "sendCommand_cmd command s = (sent, s')"
  shows "bus_only s s' \<and> n_write s < n_write s'"
  using assms bus_only_sendCommand_cmd [of s command] n_write_sendCommand [of s command 0 2]
  by (simp add: sendCommand_cmd_def)

lemma dataAvailable_result:
  assumes "dataAvailable s = (avail, s')"
  shows "bus_only s s' \<and> n_write s < n_write s'"
proof -
  obtain sent s1 where e1: "sendCommand_cmd COMMAND_GET_DATA_READY s = (sent, s1)"
    by (cases "sendCommand_cmd COMMAND_GET_DATA_READY s")
  obtain got data s2 where e2: "readbytes 3 s1 = (got, data, s2)"
    by (cases "readbytes 3 s1")
  from sendCommand_cmd_result [OF e1] have a: "bus_only s s1" "n_write s < n_write s1"
    by simp_all
  from readbytes_result [OF e2] have b: "bus_only s1 s2"
    by simp
  then have "n_write s1 \<le> n_write s2"
    by (simp add: bus_only_def bus_grows_def)
  with a have c: "n_write s < n_write s2" by simp
  have d: "s' = s1 \<or> s' = s2"
    using assms by (auto simp add: dataAvailable_def e1 e2 split: if_splits)
  from bus_only_dataAvailable [of s] assms have "bus_only s s'" by simp
  with d a c show ?thesis by auto
qed

lemma readMeasurement_result:
  assumes "readMeasurement s = (ok, s')"
  shows "n_write s < n_write s' \<and> bus_grows s s' \<and> shadow_of s' = shadow_of s \<and>
         (if ok
          then co2HasBeenReported s' = False \<and> humidityHasBeenReported s' = False \<and>
               temperatureHasBeenReported s' = False \<and>
               readMeasurement_parse
                 (take 18 (snd (read_result s (n_read s' - 1)) @ replicate 18 0))
                 0 0 [0, 0] 0 0 0 = Some (g_co2 s', g_temperature s', g_humidity s')
          else sample_of s' = sample_of s)"
proof -
  obtain avail s1 where e1: "dataAvailable s = (avail, s1)"
    by (cases "dataAvailable s")
  obtain sent s2 where e2: "sendCommand_cmd COMMAND_READ_MEASUREMENT s1 = (sent, s2)"
    by (cases "sendCommand_cmd COMMAND_READ_MEASUREMENT s1")
  obtain got buff s3 where e3: "readbytes 18 s2 = (got, buff, s3)"
    by (cases "readbytes 18 s2")
  from dataAvailable_result [OF e1] have a1: "bus_only s s1" "n_write s < n_write s1"
    by simp_all
  from sendCommand_cmd_result [OF e2] have "bus_only s1 s2"
    by simp
  with a1 have a2: "bus_only s s2" "n_write s < n_write s2"
    by (auto intro: bus_only_trans simp add: bus_only_def bus_grows_def)
  from readbytes_result [OF e3] have r: "bus_only s2 s3"
    "buff = take 18 (snd (read_result s2 (n_read s3 - 1)) @ replicate 18 0)"
    by simp_all
  from r(1) a2 have a3: "bus_only s s3" "n_write s < n_write s3"
    by (auto intro: bus_only_trans simp add: bus_only_def bus_grows_def)
  from a2 r(2) have buff:
    "buff = take 18 (snd (read_result s (n_read s3 - 1)) @ replicate 18 0)"
    by (simp add: bus_only_def bus_grows_def)
  show ?thesis
  proof (cases "avail \<and> sent \<and> got")
    case False
    then have "\<not> ok \<and> (s' = s1 \<or> s' = s2 \<or> s' = s3)"
      using assms by (auto simp add: readMeasurement_def e1 e2 e3 split: if_splits)
    with a1 a2 a3 show ?thesis
      by (auto simp add: bus_only_def)
  next
    case True
    show ?thesis
    proof (cases "readMeasurement_parse buff 0 0 [0, 0] 0 0 0")
      case None
      with True assms have "\<not> ok \<and> s' = s3"
        by (auto simp add: readMeasurement_def e1 e2 e3)
      with a3 show ?thesis
        by (auto simp add: bus_only_def)
    next
      case (Some v)
      obtain c t h where v: "v = (c, t, h)" by (cases v)
      with Some True assms have o: "ok" and s': "s' =
          s3\<lparr>g_co2 := c, g_temperature := t, g_humidity := h, co2HasBeenReported := False,
             humidityHasBeenReported := False, temperatureHasBeenReported := False\<rparr>"
        by (auto simp add: readMeasurement_def e1 e2 e3)
      from Some v buff have p: "readMeasurement_parse
          (take 18 (snd (read_result s (n_read s3 - 1)) @ replicate 18 0))
          0 0 [0, 0] 0 0 0 = Some (c, t, h)"
        by simp
      from a3 o p show ?thesis
        by (simp add: s' bus_only_def bus_grows_def shadow_of_def)
    qed
  qed
qed


subsection \<open>The parse loop on an 18-byte response\<close>

lemma parse_18:
  "readMeasurement_parse [b0, b1, b2, b3, b4, b5, b6, b7, b8, b9, b10, b11, b12, b13, b14, b15, b16, b17]
      0 0 [0, 0] 0 0 0 =
   (if checkCrc [b0, b1] 2 b2 \<and> checkCrc [b3, b4] 2 b5 \<and> checkCrc [b6, b7] 2 b8 \<and>
       checkCrc [b9, b10] 2 b11 \<and> checkCrc [b12, b13] 2 b14 \<and> checkCrc [b15, b16] 2 b17
    then Some (be32 b0 b1 b3 b4, be32 b6 b7 b9 b10, be32 b12 b13 b15 b16)
    else None)"
  by (simp add: readMeasurement_parse.simps be32_def or.assoc)

lemma list_18:
  assumes "length (xs :: 'a list) = 18"
  shows "xs = [xs ! 0, xs ! 1, xs ! 2, xs ! 3, xs ! 4, xs ! 5, xs ! 6, xs ! 7, xs ! 8, xs ! 9,
               xs ! 10, xs ! 11, xs ! 12, xs ! 13, xs ! 14, xs ! 15, xs ! 16, xs ! 17]"
proof -
  have "xs = map (\<lambda>i. xs ! i) [0..<length xs]"
    by (rule map_nth [symmetric])
  then have "xs = map (\<lambda>i. xs ! i) [0..<18]"
    unfolding assms .
  also have "\<dots> = [xs ! 0, xs ! 1, xs ! 2, xs ! 3, xs ! 4, xs ! 5, xs ! 6, xs ! 7, xs ! 8,
      xs ! 9, xs ! 10, xs ! 11, xs ! 12, xs ! 13, xs ! 14, xs ! 15, xs ! 16, xs ! 17]"
    by (simp add: upt_rec numeral_eq_Suc)
  finally show ?thesis .
qed

lemma readMeasurement_parse_fields:
  assumes "length buff = 18"
  shows "readMeasurement_parse buff 0 0 [0, 0] 0 0 0 =
     (if response_ok buff then Some (field32 buff 0, field32 buff 6, field32 buff 12) else None)"
proof -
  obtain b0 b1 b2 b3 b4 b5 b6 b7 b8 b9 b10 b11 b12 b13 b14 b15 b16 b17 where
    b: "buff = [b0, b1, b2, b3, b4, b5, b6, b7, b8, b9, b10, b11, b12, b13, b14, b15, b16, b17]"
    using list_18 [OF assms] by blast
  show ?thesis
    unfolding b parse_18
    by (simp add: response_ok_def group_ok_def field32_def)
qed

text \<open>
  C4. \<^verbatim>\<open>readMeasurement\<close> replaces the cached sample as a whole or not at all. Name
  the results of its three steps: the data-ready query, the send of the read-measurement
  command, and the read of the 18-byte response. It returns true exactly when the data
  is available, the send and the read succeed, and all six CRC bytes of the response
  match; then the three cached values are the three big-endian fields of that response
  and the three flags are false. In every other case (data not available, send failure,
  read failure, a CRC mismatch anywhere in the response) it returns false, stops at the
  step that failed, and the three values and the three flags are what they were before
  the call. The saved asc and interval are untouched either way.
\<close>

theorem readMeasurement_atomic:
  assumes "dataAvailable s = (avail, s1)"
    and "sendCommand_cmd COMMAND_READ_MEASUREMENT s1 = (sent, s2)"
    and "readbytes 18 s2 = (got, buff, s3)"
  shows "fst (readMeasurement s) = (avail \<and> sent \<and> got \<and> response_ok buff) \<and>
         sample_of (snd (readMeasurement s)) =
           (if avail \<and> sent \<and> got \<and> response_ok buff
            then ((field32 buff 0, field32 buff 6, field32 buff 12), (False, False, False))
            else sample_of s) \<and>
         shadow_of (snd (readMeasurement s)) = shadow_of s \<and>
         (avail = False \<longrightarrow> readMeasurement s = (False, s1)) \<and>
         (avail \<and> sent = False \<longrightarrow> readMeasurement s = (False, s2)) \<and>
         (avail \<and> sent \<and> (got = False \<or> response_ok buff = False) \<longrightarrow>
            readMeasurement s = (False, s3)) \<and>
         (avail \<and> sent \<and> got \<and> response_ok buff \<longrightarrow>
            readMeasurement s =
              (True,
               s3\<lparr>g_co2 := field32 buff 0, g_temperature := field32 buff 6,
                  g_humidity := field32 buff 12, co2HasBeenReported := False,
                  humidityHasBeenReported := False, temperatureHasBeenReported := False\<rparr>)) \<and>
         sample_of s1 = sample_of s \<and> sample_of s2 = sample_of s \<and> sample_of s3 = sample_of s"
proof -
  from dataAvailable_result [OF assms(1)] have b1: "bus_only s s1"
    by simp
  from sendCommand_cmd_result [OF assms(2)] have "bus_only s1 s2"
    by simp
  with b1 have b2: "bus_only s s2"
    by (rule bus_only_trans)
  from readbytes_result [OF assms(3)] have "bus_only s2 s3" and len: "length buff = 18"
    by simp_all
  with b2 have b3: "bus_only s s3"
    by (auto intro: bus_only_trans)
  have eq: "readMeasurement s =
      (if avail \<and> sent \<and> got \<and> response_ok buff
       then (True,
             s3\<lparr>g_co2 := field32 buff 0, g_temperature := field32 buff 6,
                g_humidity := field32 buff 12, co2HasBeenReported := False,
                humidityHasBeenReported := False, temperatureHasBeenReported := False\<rparr>)
       else (False, if avail = False then s1 else if sent = False then s2 else s3))"
    by (simp add: readMeasurement_def assms readMeasurement_parse_fields [OF len])
  from b1 b2 b3 have k: "sample_of s1 = sample_of s" "sample_of s2 = sample_of s"
    "sample_of s3 = sample_of s" "shadow_of s1 = shadow_of s" "shadow_of s2 = shadow_of s"
    "shadow_of s3 = shadow_of s"
    by (simp_all add: bus_only_def)
  have sh: "shadow_of (s3\<lparr>g_co2 := a, g_temperature := b, g_humidity := c,
      co2HasBeenReported := False, humidityHasBeenReported := False,
      temperatureHasBeenReported := False\<rparr>) = shadow_of s3" for a b c
    by (simp add: shadow_of_def)
  have sa: "sample_of (s3\<lparr>g_co2 := a, g_temperature := b, g_humidity := c,
      co2HasBeenReported := False, humidityHasBeenReported := False,
      temperatureHasBeenReported := False\<rparr>) = ((a, b, c), (False, False, False))" for a b c
    by (simp add: sample_of_def)
  show ?thesis
    by (auto simp add: eq k sh sa)
qed


lemma eval_sample: "readMeasurement_parse sample_bytes 0 0 [0, 0] 0 0 0 = Some (0x43DB8C2E, 0x41D9E7FF, 0x42433A1B)"
  by code_simp

lemma eval_bad: "readMeasurement_parse (sample_bytes[17 := 0x75]) 0 0 [0, 0] 0 0 0 = None"
  by code_simp


lemma sendCommand_cmd_ok:
  "write_result s (n_write s) = I2C_OK \<Longrightarrow>
   sendCommand_cmd command s =
     (True, s\<lparr>n_write := n_write s + 1,
              bus_log := bus_log s @ [I2cWrite (sendCommand_buff command 0 2)]\<rparr>)"
  by (simp add: sendCommand_cmd_def sendCommand_eq attempts_def)

lemma readbytes_ok:
  "fst (read_result s (n_read s)) = I2C_OK \<Longrightarrow>
   readbytes len s =
     (True, take (unat len) (snd (read_result s (n_read s)) @ replicate (unat len) 0),
      s\<lparr>n_read := n_read s + 1, bus_log := bus_log s @ [I2cRead (unat len)]\<rparr>)"
  by (simp add: readbytes_eq attempts_def)

lemma buff_ready: "sendCommand_buff COMMAND_GET_DATA_READY 0 2 = [0x02, 0x02]"
  by (simp add: sendCommand_buff_def COMMAND_GET_DATA_READY_def)

lemma buff_read: "sendCommand_buff COMMAND_READ_MEASUREMENT 0 2 = [0x03, 0x00]"
  by (simp add: sendCommand_buff_def COMMAND_READ_MEASUREMENT_def)

lemma dataAvailable_answer:
  assumes "write_result s (n_write s) = I2C_OK"
    and "read_result s (n_read s) = (I2C_OK, [b0, b1, b2])"
  shows "dataAvailable s =
     (checkCrc [b0, b1, b2] 2 b2 \<and> b1 = 1,
      s\<lparr>n_write := n_write s + 1, n_read := n_read s + 1,
        bus_log := bus_log s @ [I2cWrite [0x02, 0x02], I2cRead 3]\<rparr>)"
  using assms
  by (simp add: dataAvailable_def sendCommand_cmd_ok readbytes_ok buff_ready)

lemma checkCrc_ready: "checkCrc [0x00, 0x01, 0xB0] 2 0xB0 = True"
  by code_simp

lemma length_sample_bytes: "length sample_bytes = 18"
  by (simp add: sample_bytes_def)

lemma readMeasurement_answer:
  assumes "write_result s = writes_ok"
    and "read_result s (n_read s) = (I2C_OK, [0x00, 0x01, 0xB0])"
    and "read_result s (n_read s + 1) = (I2C_OK, bytes)"
    and "length bytes = 18"
  shows "readMeasurement s =
     (case readMeasurement_parse bytes 0 0 [0, 0] 0 0 0 of
        None \<Rightarrow>
          (False,
           s\<lparr>n_write := n_write s + 2, n_read := n_read s + 2,
             bus_log := bus_log s @
               [I2cWrite [0x02, 0x02], I2cRead 3, I2cWrite [0x03, 0x00], I2cRead 18]\<rparr>)
      | Some (c, t, h) \<Rightarrow>
          (True,
           s\<lparr>n_write := n_write s + 2, n_read := n_read s + 2,
             bus_log := bus_log s @
               [I2cWrite [0x02, 0x02], I2cRead 3, I2cWrite [0x03, 0x00], I2cRead 18],
             g_co2 := c, g_temperature := t, g_humidity := h,
             co2HasBeenReported := False, humidityHasBeenReported := False,
             temperatureHasBeenReported := False\<rparr>))"
proof -
  have d: "dataAvailable s =
     (True, s\<lparr>n_write := n_write s + 1, n_read := n_read s + 1,
               bus_log := bus_log s @ [I2cWrite [0x02, 0x02], I2cRead 3]\<rparr>)"
    using assms(1,2)
    by (subst dataAvailable_answer [where ?b0.0 = 0 and ?b1.0 = 1 and ?b2.0 = "0xB0"])
       (simp_all add: writes_ok_def checkCrc_ready)
  show ?thesis
    using assms
    by (simp add: readMeasurement_def d sendCommand_cmd_ok readbytes_ok writes_ok_def
        buff_read split: option.split)
qed

lemma sample_fields:
  "field32 sample_bytes 0 = 0x43DB8C2E" "field32 sample_bytes 6 = 0x41D9E7FF"
  "field32 sample_bytes 12 = 0x42433A1B"
  by (simp_all add: field32_def be32_def sample_bytes_def)

lemma response_ok_sample: "response_ok sample_bytes = True"
  using readMeasurement_parse_fields [OF length_sample_bytes] eval_sample
  by (simp split: if_splits)

lemma response_ok_bad: "response_ok (sample_bytes[17 := 0x75]) = False"
  using readMeasurement_parse_fields [of "sample_bytes[17 := 0x75]"] eval_bad
  by (simp add: length_sample_bytes split: if_splits)

lemma dataAvailable_ready:
  assumes "write_result s (n_write s) = I2C_OK"
    and "read_result s (n_read s) = (I2C_OK, [0x00, 0x01, 0xB0])"
  shows "dataAvailable s =
     (True, s\<lparr>n_write := n_write s + 1, n_read := n_read s + 1,
               bus_log := bus_log s @ [I2cWrite [0x02, 0x02], I2cRead 3]\<rparr>)"
  using dataAvailable_answer [OF assms] by (simp add: checkCrc_ready)

text \<open>
  The success and each kind of failure, on concrete buses: a good sample; a corrupted
  CRC byte; data not ready; no write acknowledged; the read-measurement command not
  acknowledged; the 18-byte read not acknowledged.
\<close>

theorem readMeasurement_atomic_witness:
  "fst (readMeasurement (init_driver writes_ok reads_sample)) = True \<and>
   sample_of (snd (readMeasurement (init_driver writes_ok reads_sample))) =
     ((0x43DB8C2E, 0x41D9E7FF, 0x42433A1B), (False, False, False)) \<and>
   fst (readMeasurement (init_driver writes_ok reads_bad_crc)) = False \<and>
   sample_of (snd (readMeasurement (init_driver writes_ok reads_bad_crc))) =
     ((0, 0, 0), (True, True, True)) \<and>
   fst (readMeasurement (init_driver writes_ok reads_not_ready)) = False \<and>
   sample_of (snd (readMeasurement (init_driver writes_ok reads_not_ready))) =
     ((0, 0, 0), (True, True, True)) \<and>
   fst (readMeasurement (init_driver writes_nack reads_sample)) = False \<and>
   sample_of (snd (readMeasurement (init_driver writes_nack reads_sample))) =
     ((0, 0, 0), (True, True, True)) \<and>
   fst (readMeasurement (init_driver writes_first_ok reads_sample)) = False \<and>
   sample_of (snd (readMeasurement (init_driver writes_first_ok reads_sample))) =
     ((0, 0, 0), (True, True, True)) \<and>
   fst (readMeasurement (init_driver writes_ok reads_ready_then_nack)) = False \<and>
   sample_of (snd (readMeasurement (init_driver writes_ok reads_ready_then_nack))) =
     ((0, 0, 0), (True, True, True))"
proof -
  have i: "sample_of (init_driver wr rd) = ((0, 0, 0), (True, True, True))" for wr rd
    by (simp add: sample_of_def init_driver_sel)
  have T: "fst (readMeasurement s) = (avail \<and> sent \<and> got \<and> response_ok buff) \<and>
      sample_of (snd (readMeasurement s)) =
        (if avail \<and> sent \<and> got \<and> response_ok buff
         then ((field32 buff 0, field32 buff 6, field32 buff 12), (False, False, False))
         else sample_of s)"
    if "dataAvailable s = (avail, s1)"
      and "sendCommand_cmd COMMAND_READ_MEASUREMENT s1 = (sent, s2)"
      and "readbytes 18 s2 = (got, buff, s3)"
    for s avail s1 sent s2 got buff s3
    using readMeasurement_atomic [OF that] by simp
  have F: "fst (readMeasurement s) = False \<and> sample_of (snd (readMeasurement s)) = sample_of s"
    if "fst (dataAvailable s) = False" for s
  proof -
    have e1: "dataAvailable s = (False, snd (dataAvailable s))"
      using that by (cases "dataAvailable s") simp
    obtain sent s2 where
      e2: "sendCommand_cmd COMMAND_READ_MEASUREMENT (snd (dataAvailable s)) = (sent, s2)"
      by (cases "sendCommand_cmd COMMAND_READ_MEASUREMENT (snd (dataAvailable s))")
    obtain got buff s3 where e3: "readbytes 18 s2 = (got, buff, s3)"
      by (cases "readbytes 18 s2")
    from T [OF e1 e2 e3] show ?thesis
      by simp
  qed
  let ?ok = "init_driver writes_ok reads_sample"
  let ?crc = "init_driver writes_ok reads_bad_crc"
  let ?nr = "init_driver writes_ok reads_not_ready"
  let ?nack = "init_driver writes_nack reads_sample"
  let ?send = "init_driver writes_first_ok reads_sample"
  let ?read = "init_driver writes_ok reads_ready_then_nack"
  have d: "dataAvailable (init_driver wr rd) =
      (True, (init_driver wr rd)\<lparr>n_write := 1, n_read := 1,
                bus_log := [I2cWrite [0x02, 0x02], I2cRead 3]\<rparr>)"
    if "wr 0 = I2C_OK" and "rd 0 = (I2C_OK, [0x00, 0x01, 0xB0])" for wr rd
    using dataAvailable_ready [of "init_driver wr rd"] that
    by (simp add: init_driver_sel)
  let ?s1 = "\<lambda>wr rd. (init_driver wr rd)\<lparr>n_write := 1, n_read := 1,
                bus_log := [I2cWrite [0x02, 0x02], I2cRead 3]\<rparr>"
  have c: "sendCommand_cmd COMMAND_READ_MEASUREMENT (?s1 writes_ok rd) =
      (True, (init_driver writes_ok rd)\<lparr>n_write := 2, n_read := 1,
                bus_log := [I2cWrite [0x02, 0x02], I2cRead 3, I2cWrite [0x03, 0x00]]\<rparr>)" for rd
    by (simp add: sendCommand_cmd_ok init_driver_sel writes_ok_def buff_read)
  let ?s2 = "\<lambda>rd. (init_driver writes_ok rd)\<lparr>n_write := 2, n_read := 1,
                bus_log := [I2cWrite [0x02, 0x02], I2cRead 3, I2cWrite [0x03, 0x00]]\<rparr>"
  have r_ok: "readbytes 18 (?s2 reads_sample) =
      (True, sample_bytes, snd (snd (readbytes 18 (?s2 reads_sample))))"
    by (simp add: readbytes_eq init_driver_sel reads_sample_def attempts_def
        length_sample_bytes)
  have r_crc: "readbytes 18 (?s2 reads_bad_crc) =
      (True, sample_bytes[17 := 0x75], snd (snd (readbytes 18 (?s2 reads_bad_crc))))"
    by (simp add: readbytes_eq init_driver_sel reads_bad_crc_def attempts_def
        length_sample_bytes)
  have r_read: "readbytes 18 (?s2 reads_ready_then_nack) =
      (False, fst (snd (readbytes 18 (?s2 reads_ready_then_nack))),
       snd (snd (readbytes 18 (?s2 reads_ready_then_nack))))"
    by (simp add: readbytes_eq init_driver_sel reads_ready_then_nack_def)
  have c_send: "sendCommand_cmd COMMAND_READ_MEASUREMENT (?s1 writes_first_ok reads_sample) =
      (False, snd (sendCommand_cmd COMMAND_READ_MEASUREMENT (?s1 writes_first_ok reads_sample)))"
    by (simp add: sendCommand_cmd_def sendCommand_eq init_driver_sel writes_first_ok_def)
  have d_ok: "dataAvailable ?ok = (True, ?s1 writes_ok reads_sample)"
    by (rule d) (simp_all add: writes_ok_def reads_sample_def)
  have d_crc: "dataAvailable ?crc = (True, ?s1 writes_ok reads_bad_crc)"
    by (rule d) (simp_all add: writes_ok_def reads_bad_crc_def)
  have d_send: "dataAvailable ?send = (True, ?s1 writes_first_ok reads_sample)"
    by (rule d) (simp_all add: writes_first_ok_def reads_sample_def)
  have d_read: "dataAvailable ?read = (True, ?s1 writes_ok reads_ready_then_nack)"
    by (rule d) (simp_all add: writes_ok_def reads_ready_then_nack_def)
  obtain got5 buff5 s5 where r_send:
    "readbytes 18 (snd (sendCommand_cmd COMMAND_READ_MEASUREMENT
                         (?s1 writes_first_ok reads_sample))) = (got5, buff5, s5)"
    by (cases "readbytes 18 (snd (sendCommand_cmd COMMAND_READ_MEASUREMENT
                                   (?s1 writes_first_ok reads_sample)))")
  have 1: "fst (readMeasurement ?ok) = True \<and> sample_of (snd (readMeasurement ?ok)) =
      ((0x43DB8C2E, 0x41D9E7FF, 0x42433A1B), (False, False, False))"
    using T [OF d_ok c [of reads_sample] r_ok]
    by (simp add: response_ok_sample sample_fields)
  have 2: "fst (readMeasurement ?crc) = False \<and> sample_of (snd (readMeasurement ?crc)) =
      ((0, 0, 0), (True, True, True))"
    using T [OF d_crc c [of reads_bad_crc] r_crc]
    by (simp add: response_ok_bad i)
  have 3: "fst (readMeasurement ?nr) = False \<and> sample_of (snd (readMeasurement ?nr)) =
      ((0, 0, 0), (True, True, True))"
    using F [of ?nr] dataAvailable_answer [of ?nr 0 0 "0x81"]
    by (simp add: init_driver_sel writes_ok_def reads_not_ready_def i)
  have 4: "fst (readMeasurement ?nack) = False \<and> sample_of (snd (readMeasurement ?nack)) =
      ((0, 0, 0), (True, True, True))"
    using F [of ?nack]
    by (simp add: dataAvailable_def sendCommand_cmd_def sendCommand_eq init_driver_sel
        writes_nack_def i)
  have 5: "fst (readMeasurement ?send) = False \<and> sample_of (snd (readMeasurement ?send)) =
      ((0, 0, 0), (True, True, True))"
    using T [OF d_send c_send r_send]
    by (simp add: i)
  have 6: "fst (readMeasurement ?read) = False \<and> sample_of (snd (readMeasurement ?read)) =
      ((0, 0, 0), (True, True, True))"
    using T [OF d_read c [of reads_ready_then_nack] r_read]
    by (simp add: i)
  from 1 2 3 4 5 6 show ?thesis
    by simp
qed

section \<open>Pressure compensation\<close>

text \<open>
  C10. \<^verbatim>\<open>setAmbientPressure\<close> has no validation failure: for every pressure below 700
  or above 1200 it is the continuous-measurement command with argument 0 (the frame
  00 10 00 00 81), written until a write succeeds or four have failed, and it returns
  true as soon as one write of the four succeeds. For every argument at least one write
  is made.
\<close>

theorem setAmbientPressure_out_of_range:
  assumes "pressure_mbar < 700 \<or> pressure_mbar > 1200"
  shows "setAmbientPressure pressure_mbar s =
           sendCommand_args COMMAND_CONTINUOUS_MEASUREMENT 0 s \<and>
         bus_log (snd (setAmbientPressure pressure_mbar s)) =
           bus_log s @ replicate (attempts (\<lambda>i. write_result s i = I2C_OK) (n_write s))
                         (I2cWrite [0x00, 0x10, 0x00, 0x00, 0x81]) \<and>
         1 \<le> attempts (\<lambda>i. write_result s i = I2C_OK) (n_write s) \<and>
         fst (setAmbientPressure pressure_mbar s) =
           (write_result s (n_write s) = I2C_OK \<or> write_result s (n_write s + 1) = I2C_OK \<or>
            write_result s (n_write s + 2) = I2C_OK \<or> write_result s (n_write s + 3) = I2C_OK) \<and>
         (\<forall>p. n_write s < n_write (snd (setAmbientPressure p s)))"
proof -
  have e: "setAmbientPressure pressure_mbar s =
             sendCommand_args COMMAND_CONTINUOUS_MEASUREMENT 0 s"
    using assms by (auto simp add: setAmbientPressure_def beginMeasuring_def)
  have n: "n_write s < n_write (snd (setAmbientPressure p s))" for p
    by (simp add: setAmbientPressure_def beginMeasuring_def sendCommand_args_def
        n_write_sendCommand)
  show ?thesis
    unfolding e using n
    by (simp add: e sendCommand_args_def sendCommand_eq buff_start_0 attempts_def)
qed

theorem setAmbientPressure_out_of_range_witness:
  "((100 :: u16) < 700 \<or> (100 :: u16) > 1200) \<and>
   fst (setAmbientPressure 100 (init_driver writes_ok reads_nack)) = True \<and>
   bus_log (snd (setAmbientPressure 100 (init_driver writes_ok reads_nack))) =
     [I2cWrite [0x00, 0x10, 0x00, 0x00, 0x81]]"
proof -
  have h: "(100 :: u16) < 700 \<or> (100 :: u16) > 1200" by simp
  from setAmbientPressure_out_of_range [OF h, of "init_driver writes_ok reads_nack"]
  show ?thesis
    by (auto simp add: init_driver_sel writes_ok_def attempts_def)
qed

section \<open>Forced recalibration\<close>

text \<open>
  C5 as stated fails: on a bus that acknowledges every write, with the
  auto-self-calibration flag true, \<^verbatim>\<open>setForceRecalibration(500)\<close> succeeds and the
  flag is still true.
\<close>

theorem setForceRecalibration_keeps_asc_counterexample:
  "g_asc (init_driver writes_ok reads_nack) = True \<and>
   fst (setForceRecalibration 500 (init_driver writes_ok reads_nack)) = True \<and>
   g_asc (snd (setForceRecalibration 500 (init_driver writes_ok reads_nack))) = True"
  by (simp add: setForceRecalibration_def sendCommand_args_def sendCommand_eq init_driver_sel
      writes_ok_def)

text \<open>
  C5, as the code has it. \<^verbatim>\<open>setForceRecalibration\<close> leaves the driver's
  auto-self-calibration flag, and everything else but the bus, as it was; with a value
  in 400..2000 it is the forced-recalibration command with that value. The only place
  that couples the two is one step of the command line parser: the option \<^verbatim>\<open>-f\<close>,
  when it is accepted, sets the asc parameter of the program to false at that step; a
  later \<^verbatim>\<open>-a\<close> sets it to true again.
\<close>

theorem setForceRecalibration_leaves_asc:
  "g_asc (snd (setForceRecalibration val s)) = g_asc s \<and>
   bus_only s (snd (setForceRecalibration val s)) \<and>
   (400 \<le> val \<and> val \<le> 2000 \<longrightarrow>
      setForceRecalibration val s =
        sendCommand_args COMMAND_SET_FORCED_RECALIBRATION_FACTOR val s) \<and>
   (\<forall>scd'. parse_cmdline Opt_f v scd = Some scd' \<longrightarrow>
      scd_asc scd' = False \<and> scd_frc scd' = v) \<and>
   parse_cmdline Opt_a v scd = Some (scd\<lparr>scd_asc := True\<rparr>)"
proof (intro conjI allI impI)
  show b: "bus_only s (snd (setForceRecalibration val s))"
    by (rule bus_only_setForceRecalibration)
  from bus_only_shadow [OF b] show "g_asc (snd (setForceRecalibration val s)) = g_asc s"
    by simp
  show "setForceRecalibration val s =
      sendCommand_args COMMAND_SET_FORCED_RECALIBRATION_FACTOR val s"
    if "400 \<le> val \<and> val \<le> 2000"
    using that by (auto simp add: setForceRecalibration_def)
  show "scd_asc scd' = False" if "parse_cmdline Opt_f v scd = Some scd'" for scd'
    using that by (auto simp add: Let_def split: if_splits)
  show "scd_frc scd' = v" if "parse_cmdline Opt_f v scd = Some scd'" for scd'
    using that by (auto simp add: Let_def split: if_splits)
  show "parse_cmdline Opt_a v scd = Some (scd\<lparr>scd_asc := True\<rparr>)"
    by simp
qed


theorem setForceRecalibration_leaves_asc_witness:
  "g_asc (snd (setForceRecalibration 500 (init_driver writes_nack reads_nack))) = True \<and>
   parse_cmdline Opt_f 500 init_variables =
     Some (init_variables\<lparr>scd_frc := 500, scd_asc := False\<rparr>) \<and>
   parse_cmdline Opt_a 0 (init_variables\<lparr>scd_frc := 500, scd_asc := False\<rparr>) =
     Some (init_variables\<lparr>scd_frc := 500, scd_asc := True\<rparr>)"
proof -
  note t = setForceRecalibration_leaves_asc
    [of 500 "init_driver writes_nack reads_nack" 0
      "init_variables\<lparr>scd_frc := 500, scd_asc := False\<rparr>"]
  from t have 1: "g_asc (snd (setForceRecalibration 500 (init_driver writes_nack reads_nack))) =
      g_asc (init_driver writes_nack reads_nack)"
    by (rule conjunct1)
  from t have 2: "parse_cmdline Opt_a 0 (init_variables\<lparr>scd_frc := 500, scd_asc := False\<rparr>) =
      Some (init_variables\<lparr>scd_frc := 500, scd_asc := False, scd_asc := True\<rparr>)"
    by (rule conjunct2 [OF conjunct2 [OF conjunct2 [OF conjunct2]]])
  have 3: "parse_cmdline Opt_f 500 init_variables =
      Some (init_variables\<lparr>scd_frc := 500, scd_asc := False\<rparr>)"
    by (simp add: Let_def)
  from 1 2 3 show ?thesis
    by (simp add: init_driver_sel)
qed

section \<open>Altitude and pressure\<close>

text \<open>
  C6 as stated fails: on a bus that acknowledges every write, setting the pressure to
  900 after the altitude was set to 1000 succeeds, and so does setting the altitude
  after the pressure.
\<close>

theorem altitude_pressure_exclusion_counterexample:
  "fst (setAltitudeCompensation 1000 (init_driver writes_ok reads_nack)) = True \<and>
   fst (setAmbientPressure 900
         (snd (setAltitudeCompensation 1000 (init_driver writes_ok reads_nack)))) = True \<and>
   fst (setAmbientPressure 900 (init_driver writes_ok reads_nack)) = True \<and>
   fst (setAltitudeCompensation 1000
         (snd (setAmbientPressure 900 (init_driver writes_ok reads_nack)))) = True"
proof -
  have w: "write_result s = writes_ok \<Longrightarrow> fst (setAmbientPressure 900 s) = True" for s
    by (simp add: fst_setAmbientPressure writes_ok_def)
  have a: "write_result s = writes_ok \<Longrightarrow> fst (setAltitudeCompensation 1000 s) = True" for s
    by (simp add: fst_setAltitudeCompensation writes_ok_def)
  have 1: "write_result (snd (setAltitudeCompensation 1000 (init_driver writes_ok reads_nack)))
             = writes_ok"
    using bus_only_setAltitudeCompensation [of "init_driver writes_ok reads_nack" 1000]
    by (simp add: bus_only_def bus_grows_def init_driver_sel)
  have 2: "write_result (snd (setAmbientPressure 900 (init_driver writes_ok reads_nack)))
             = writes_ok"
    using bus_only_setAmbientPressure [of "init_driver writes_ok reads_nack" 900]
    by (simp add: bus_only_def bus_grows_def init_driver_sel)
  show ?thesis
    by (simp add: w a 1 2 init_driver_sel)
qed

lemma parse_cmdline_m_accepts:
  "(parse_cmdline Opt_m v scd \<noteq> None) =
     (- 1520 \<le> sint v \<and> sint v \<le> 3040 \<and> scd_pressure scd = - 1)"
  by (simp add: Let_def sint_eq_minus_1 not_less)

lemma parse_cmdline_p_accepts:
  "(parse_cmdline Opt_p v scd \<noteq> None) =
     ((v = 0 \<or> 700 \<le> sint v \<and> sint v \<le> 1200) \<and> scd_altitude scd = - 1)"
  by (simp add: Let_def sint_eq_minus_1 signed_eq_0_iff not_less) arith


text \<open>
  C6, as the code has it. The two setters do not exclude each other and keep no
  altitude or pressure in the driver: in any state \<^verbatim>\<open>setAmbientPressure\<close> succeeds
  exactly when one of its up to four writes does, and so does
  \<^verbatim>\<open>setAltitudeCompensation\<close> for an altitude from 0 to 3040; both touch nothing but
  the bus. The exclusion is made by the command line parser, as a test of the stored
  parameter: \<^verbatim>\<open>-m\<close> is accepted exactly when its value is in range and the pressure
  parameter holds -1, \<^verbatim>\<open>-p\<close> exactly when its value is 0 or in range and the
  altitude parameter holds -1. That is the initial value, which \<^verbatim>\<open>-m -1\<close> stores
  too.
\<close>

theorem altitude_pressure_setters_independent:
  "fst (setAmbientPressure pressure_mbar s) =
     (write_result s (n_write s) = I2C_OK \<or> write_result s (n_write s + 1) = I2C_OK \<or>
      write_result s (n_write s + 2) = I2C_OK \<or> write_result s (n_write s + 3) = I2C_OK) \<and>
   (altitude \<le> 3040 \<longrightarrow>
      fst (setAltitudeCompensation altitude s) =
        (write_result s (n_write s) = I2C_OK \<or> write_result s (n_write s + 1) = I2C_OK \<or>
         write_result s (n_write s + 2) = I2C_OK \<or> write_result s (n_write s + 3) = I2C_OK)) \<and>
   bus_only s (snd (setAmbientPressure pressure_mbar s)) \<and>
   bus_only s (snd (setAltitudeCompensation altitude s)) \<and>
   (parse_cmdline Opt_m v scd \<noteq> None) =
     (- 1520 \<le> sint v \<and> sint v \<le> 3040 \<and> scd_pressure scd = - 1) \<and>
   (parse_cmdline Opt_p v scd \<noteq> None) =
     ((v = 0 \<or> 700 \<le> sint v \<and> sint v \<le> 1200) \<and> scd_altitude scd = - 1) \<and>
   (\<forall>scd'. parse_cmdline Opt_m v scd = Some scd' \<longrightarrow> scd' = scd\<lparr>scd_altitude := v\<rparr>) \<and>
   (\<forall>scd'. parse_cmdline Opt_p v scd = Some scd' \<longrightarrow> scd' = scd\<lparr>scd_pressure := v\<rparr>)"
proof (intro conjI allI impI)
  show "fst (setAmbientPressure pressure_mbar s) =
     (write_result s (n_write s) = I2C_OK \<or> write_result s (n_write s + 1) = I2C_OK \<or>
      write_result s (n_write s + 2) = I2C_OK \<or> write_result s (n_write s + 3) = I2C_OK)"
    by (rule fst_setAmbientPressure)
  show "fst (setAltitudeCompensation altitude s) =
        (write_result s (n_write s) = I2C_OK \<or> write_result s (n_write s + 1) = I2C_OK \<or>
         write_result s (n_write s + 2) = I2C_OK \<or> write_result s (n_write s + 3) = I2C_OK)"
    if "altitude \<le> 3040"
    using that by (simp add: fst_setAltitudeCompensation)
  show "bus_only s (snd (setAmbientPressure pressure_mbar s))"
    by (rule bus_only_setAmbientPressure)
  show "bus_only s (snd (setAltitudeCompensation altitude s))"
    by (rule bus_only_setAltitudeCompensation)
  show "(parse_cmdline Opt_m v scd \<noteq> None) =
     (- 1520 \<le> sint v \<and> sint v \<le> 3040 \<and> scd_pressure scd = - 1)"
    by (rule parse_cmdline_m_accepts)
  show "(parse_cmdline Opt_p v scd \<noteq> None) =
     ((v = 0 \<or> 700 \<le> sint v \<and> sint v \<le> 1200) \<and> scd_altitude scd = - 1)"
    by (rule parse_cmdline_p_accepts)
  show "scd' = scd\<lparr>scd_altitude := v\<rparr>" if "parse_cmdline Opt_m v scd = Some scd'" for scd'
    using that by (simp add: Let_def split: if_splits)
  show "scd' = scd\<lparr>scd_pressure := v\<rparr>" if "parse_cmdline Opt_p v scd = Some scd'" for scd'
    using that by (simp add: Let_def split: if_splits)
qed

theorem altitude_pressure_setters_independent_witness:
  "fst (setAmbientPressure 900
         (snd (setAltitudeCompensation 1000 (init_driver writes_nack4 reads_nack)))) = True \<and>
   fst (setAltitudeCompensation 1000 (init_driver writes_ok reads_nack)) = True \<and>
   parse_cmdline Opt_m 1000 init_variables = Some (init_variables\<lparr>scd_altitude := 1000\<rparr>) \<and>
   parse_cmdline Opt_p 900 (init_variables\<lparr>scd_altitude := 1000\<rparr>) = None \<and>
   parse_cmdline Opt_p 900 init_variables = Some (init_variables\<lparr>scd_pressure := 900\<rparr>) \<and>
   parse_cmdline Opt_m 1000 (init_variables\<lparr>scd_pressure := 900\<rparr>) = None \<and>
   parse_cmdline Opt_m (- 1) init_variables = Some (init_variables\<lparr>scd_altitude := - 1\<rparr>) \<and>
   parse_cmdline Opt_p 900 (init_variables\<lparr>scd_altitude := - 1\<rparr>) =
     Some (init_variables\<lparr>scd_altitude := - 1, scd_pressure := 900\<rparr>)"
proof -
  let ?s = "snd (setAltitudeCompensation 1000 (init_driver writes_nack4 reads_nack))"
  let ?t = "init_driver writes_ok reads_nack"
  have "write_result ?s = writes_nack4 \<and> n_write ?s = 4"
    by (simp add: setAltitudeCompensation_def altitude_check sendCommand_args_def
        sendCommand_eq init_driver_sel writes_nack4_def attempts_def)
  then have w: "write_result ?s (n_write ?s) = I2C_OK"
    by (simp add: writes_nack4_def)
  have h: "(1000 :: u16) \<le> 3040"
    by simp
  note t = altitude_pressure_setters_independent
  from t [of 900 ?s 1000 1000 init_variables]
  have "fst (setAmbientPressure 900 ?s) =
     (write_result ?s (n_write ?s) = I2C_OK \<or> write_result ?s (n_write ?s + 1) = I2C_OK \<or>
      write_result ?s (n_write ?s + 2) = I2C_OK \<or> write_result ?s (n_write ?s + 3) = I2C_OK)"
    by (rule conjunct1)
  with w have 1: "fst (setAmbientPressure 900 ?s) = True"
    by simp
  from t [of 900 ?t 1000 1000 init_variables]
  have "1000 \<le> (3040 :: u16) \<longrightarrow> fst (setAltitudeCompensation 1000 ?t) =
     (write_result ?t (n_write ?t) = I2C_OK \<or> write_result ?t (n_write ?t + 1) = I2C_OK \<or>
      write_result ?t (n_write ?t + 2) = I2C_OK \<or> write_result ?t (n_write ?t + 3) = I2C_OK)"
    by (rule conjunct1 [OF conjunct2])
  with h have 2: "fst (setAltitudeCompensation 1000 ?t) = True"
    by (simp add: init_driver_sel writes_ok_def)
  have 3: "parse_cmdline Opt_m 1000 init_variables = Some (init_variables\<lparr>scd_altitude := 1000\<rparr>)"
    "parse_cmdline Opt_p 900 (init_variables\<lparr>scd_altitude := 1000\<rparr>) = None"
    "parse_cmdline Opt_p 900 init_variables = Some (init_variables\<lparr>scd_pressure := 900\<rparr>)"
    "parse_cmdline Opt_m 1000 (init_variables\<lparr>scd_pressure := 900\<rparr>) = None"
    "parse_cmdline Opt_m (- 1) init_variables = Some (init_variables\<lparr>scd_altitude := - 1\<rparr>)"
    "parse_cmdline Opt_p 900 (init_variables\<lparr>scd_altitude := - 1\<rparr>) =
       Some (init_variables\<lparr>scd_altitude := - 1, scd_pressure := 900\<rparr>)"
    by (simp_all add: Let_def init_variables_sel)
  from 1 2 3 show ?thesis
    by (simp only: simp_thms)
qed

section \<open>Setters and the shadow configuration\<close>

text \<open>
  C7 as stated fails: on a bus that answers every write with a NACK,
  \<^verbatim>\<open>setMeasurementInterval(10)\<close> fails and the stored interval has become 10, and
  \<^verbatim>\<open>setAutoSelfCalibration(false)\<close> fails and the stored flag has become false.
\<close>

theorem setter_failure_counterexample:
  "g_interval (init_driver writes_nack reads_nack) = 2 \<and>
   fst (setMeasurementInterval 10 (init_driver writes_nack reads_nack)) = False \<and>
   g_interval (snd (setMeasurementInterval 10 (init_driver writes_nack reads_nack))) = 10 \<and>
   g_asc (init_driver writes_nack reads_nack) = True \<and>
   fst (setAutoSelfCalibration False (init_driver writes_nack reads_nack)) = False \<and>
   g_asc (snd (setAutoSelfCalibration False (init_driver writes_nack reads_nack))) = False"
  by (simp add: setMeasurementInterval_def setAutoSelfCalibration_def sendCommand_args_def
      sendCommand_eq init_driver_sel writes_nack_def Let_def)

text \<open>
  C7, as the code has it. A setter that fails its validation returns false and leaves
  the whole state as it was. \<^verbatim>\<open>setMeasurementInterval\<close> with a valid interval and
  \<^verbatim>\<open>setAutoSelfCalibration\<close> store the requested value before the transaction, and
  it stays stored whether the transaction succeeds or fails; neither changes the other
  setting. The setters for forced recalibration, altitude, pressure and temperature
  offset never change the stored asc and interval.
\<close>

theorem setters_shadow_configuration:
  "(iv < 2 \<or> iv > 1800 \<longrightarrow> setMeasurementInterval iv s = (False, s)) \<and>
   (val < 400 \<or> val > 2000 \<longrightarrow> setForceRecalibration val s = (False, s)) \<and>
   (altitude > 3040 \<longrightarrow> setAltitudeCompensation altitude s = (False, s)) \<and>
   (negative \<longrightarrow> setTemperatureOffset negative tickOffset s = (False, s)) \<and>
   (2 \<le> iv \<and> iv \<le> 1800 \<longrightarrow> g_interval (snd (setMeasurementInterval iv s)) = iv) \<and>
   g_asc (snd (setMeasurementInterval iv s)) = g_asc s \<and>
   g_asc (snd (setAutoSelfCalibration enable s)) = enable \<and>
   g_interval (snd (setAutoSelfCalibration enable s)) = g_interval s \<and>
   shadow_of (snd (setForceRecalibration val s)) = shadow_of s \<and>
   shadow_of (snd (setAltitudeCompensation altitude s)) = shadow_of s \<and>
   shadow_of (snd (setAmbientPressure pressure_mbar s)) = shadow_of s \<and>
   shadow_of (snd (setTemperatureOffset negative tickOffset s)) = shadow_of s"
proof -
  have v: "iv < 2 \<or> iv > 1800 \<Longrightarrow> setMeasurementInterval iv s = (False, s)"
    "val < 400 \<or> val > 2000 \<Longrightarrow> setForceRecalibration val s = (False, s)"
    "altitude > 3040 \<Longrightarrow> setAltitudeCompensation altitude s = (False, s)"
    "negative \<Longrightarrow> setTemperatureOffset negative tickOffset s = (False, s)"
    by (simp_all add: setMeasurementInterval_def setForceRecalibration_def
        setAltitudeCompensation_def altitude_check setTemperatureOffset_def)
  have i: "2 \<le> iv \<and> iv \<le> 1800 \<Longrightarrow> g_interval (snd (setMeasurementInterval iv s)) = iv"
    using setMeasurementInterval_shadow [of iv s] by (auto simp add: not_less)
  have b: "shadow_of (snd (setForceRecalibration val s)) = shadow_of s"
    "shadow_of (snd (setAltitudeCompensation altitude s)) = shadow_of s"
    "shadow_of (snd (setAmbientPressure pressure_mbar s)) = shadow_of s"
    "shadow_of (snd (setTemperatureOffset negative tickOffset s)) = shadow_of s"
    using bus_only_setForceRecalibration [of s val]
      bus_only_setAltitudeCompensation [of s altitude]
      bus_only_setAmbientPressure [of s pressure_mbar]
      bus_only_setTemperatureOffset [of s negative tickOffset]
    by (simp_all add: bus_only_def)
  show ?thesis
    using v i b setMeasurementInterval_shadow [of iv s] setAutoSelfCalibration_shadow [of enable s]
    by blast
qed

theorem setters_shadow_configuration_witness:
  "setMeasurementInterval 1 (init_driver writes_nack reads_nack) =
     (False, init_driver writes_nack reads_nack) \<and>
   setForceRecalibration 300 (init_driver writes_nack reads_nack) =
     (False, init_driver writes_nack reads_nack) \<and>
   setAltitudeCompensation 4000 (init_driver writes_nack reads_nack) =
     (False, init_driver writes_nack reads_nack) \<and>
   setTemperatureOffset True 0 (init_driver writes_nack reads_nack) =
     (False, init_driver writes_nack reads_nack) \<and>
   g_interval (snd (setMeasurementInterval 10 (init_driver writes_nack reads_nack))) = 10 \<and>
   g_asc (snd (setAutoSelfCalibration False (init_driver writes_nack reads_nack))) = False"
  using setters_shadow_configuration
    [of 1 "init_driver writes_nack reads_nack" 300 4000 True 0 False 0]
    setters_shadow_configuration
    [of 10 "init_driver writes_nack reads_nack" 300 4000 True 0 False 0]
  by simp

section \<open>The reading accessors\<close>

lemma readMeasurement_not_ready:
  assumes "write_result s = writes_ok" and "read_result s = reads_not_ready"
  shows "readMeasurement s =
     (False, s\<lparr>n_write := n_write s + 1, n_read := n_read s + 1,
               bus_log := bus_log s @ [I2cWrite [0x02, 0x02], I2cRead 3]\<rparr>)"
proof -
  have "dataAvailable s =
     (False, s\<lparr>n_write := n_write s + 1, n_read := n_read s + 1,
               bus_log := bus_log s @ [I2cWrite [0x02, 0x02], I2cRead 3]\<rparr>)"
    using assms
    by (subst dataAvailable_answer [where ?b0.0 = 0 and ?b1.0 = 0 and ?b2.0 = "0x81"])
       (simp_all add: writes_ok_def reads_not_ready_def)
  then show ?thesis
    by (simp add: readMeasurement_def)
qed

lemma getCO2_not_ready:
  assumes "write_result s = writes_ok" and "read_result s = reads_not_ready"
    and "co2HasBeenReported s = True"
  shows "getCO2 to_uint16 s =
     (to_uint16 (g_co2 s),
      s\<lparr>n_write := n_write s + 1, n_read := n_read s + 1,
        bus_log := bus_log s @ [I2cWrite [0x02, 0x02], I2cRead 3]\<rparr>)"
  using assms by (simp add: getCO2_def readMeasurement_not_ready Let_def)

text \<open>
  C8 as stated fails: on a bus where every write is acknowledged and the sensor answers
  every data-ready query with "not ready", no \<^verbatim>\<open>readMeasurement\<close> succeeds, and
  three consecutive calls of \<^verbatim>\<open>getCO2\<close> issue three data-ready transactions, one
  each.
\<close>

theorem getCO2_three_calls_counterexample:
  "fst (readMeasurement (init_driver writes_ok reads_not_ready)) = False \<and>
   fst (readMeasurement (snd (getCO2 to_uint16_sample (init_driver writes_ok reads_not_ready)))) = False \<and>
   fst (readMeasurement
         (snd (getCO2 to_uint16_sample (snd (getCO2 to_uint16_sample (init_driver writes_ok reads_not_ready)))))) =
     False \<and>
   bus_log
     (snd (getCO2 to_uint16_sample
            (snd (getCO2 to_uint16_sample (snd (getCO2 to_uint16_sample (init_driver writes_ok reads_not_ready))))))) =
     [I2cWrite [0x02, 0x02], I2cRead 3, I2cWrite [0x02, 0x02], I2cRead 3,
      I2cWrite [0x02, 0x02], I2cRead 3]"
  by (simp add: getCO2_not_ready readMeasurement_not_ready init_driver_sel)

lemma getCO2_flag: "co2HasBeenReported (snd (getCO2 to_uint16 s)) = True"
  by (simp add: getCO2_def Let_def)

lemma getCO2_n_write:
  "n_write s \<le> n_write (snd (getCO2 to_uint16 s)) \<and>
   (co2HasBeenReported s = True \<longrightarrow> n_write s < n_write (snd (getCO2 to_uint16 s)))"
  using readMeasurement_result [of s "fst (readMeasurement s)" "snd (readMeasurement s)"]
  by (simp add: getCO2_def Let_def)

lemma sendCommand_cmd_first_write:
  "\<exists>evs. bus_log (snd (sendCommand_cmd command s)) =
          bus_log s @ I2cWrite (sendCommand_buff command 0 2) # evs"
proof -
  have "1 \<le> attempts (\<lambda>i. write_result s i = I2C_OK) (n_write s)"
    by (simp add: attempts_def)
  then obtain k where k: "attempts (\<lambda>i. write_result s i = I2C_OK) (n_write s) = Suc k"
    by (cases "attempts (\<lambda>i. write_result s i = I2C_OK) (n_write s)") simp_all
  show ?thesis
    by (simp add: sendCommand_cmd_def sendCommand_eq k)
qed

lemma dataAvailable_first_write:
  "\<exists>evs. bus_log (snd (dataAvailable s)) = bus_log s @ I2cWrite [0x02, 0x02] # evs"
proof -
  obtain sent s1 where e1: "sendCommand_cmd COMMAND_GET_DATA_READY s = (sent, s1)"
    by (cases "sendCommand_cmd COMMAND_GET_DATA_READY s")
  obtain got data s2 where e2: "readbytes 3 s1 = (got, data, s2)"
    by (cases "readbytes 3 s1")
  from sendCommand_cmd_first_write [of COMMAND_GET_DATA_READY s] e1
  obtain evs where l1: "bus_log s1 = bus_log s @ I2cWrite [0x02, 0x02] # evs"
    by (auto simp add: buff_ready)
  from readbytes_result [OF e2] have "prefix (bus_log s1) (bus_log s2)"
    by (simp add: bus_only_def bus_grows_def)
  then obtain evs2 where l2: "bus_log s2 = bus_log s1 @ evs2"
    by (auto simp add: prefix_def)
  have "snd (dataAvailable s) = s1 \<or> snd (dataAvailable s) = s2"
    by (simp add: dataAvailable_def e1 e2)
  with l1 l2 show ?thesis
    by auto
qed

lemma readMeasurement_first_write:
  "\<exists>evs. bus_log (snd (readMeasurement s)) = bus_log s @ I2cWrite [0x02, 0x02] # evs"
proof -
  obtain avail s1 where e1: "dataAvailable s = (avail, s1)"
    by (cases "dataAvailable s")
  obtain sent s2 where e2: "sendCommand_cmd COMMAND_READ_MEASUREMENT s1 = (sent, s2)"
    by (cases "sendCommand_cmd COMMAND_READ_MEASUREMENT s1")
  obtain got buff s3 where e3: "readbytes 18 s2 = (got, buff, s3)"
    by (cases "readbytes 18 s2")
  from dataAvailable_first_write [of s] e1
  obtain evs where l1: "bus_log s1 = bus_log s @ I2cWrite [0x02, 0x02] # evs"
    by auto
  from sendCommand_cmd_result [OF e2] obtain evs2 where l2: "bus_log s2 = bus_log s1 @ evs2"
    by (auto simp add: bus_only_def bus_grows_def prefix_def)
  from readbytes_result [OF e3] obtain evs3 where l3: "bus_log s3 = bus_log s2 @ evs3"
    by (auto simp add: bus_only_def bus_grows_def prefix_def)
  have "bus_log (snd (readMeasurement s)) = bus_log s1 \<or>
        bus_log (snd (readMeasurement s)) = bus_log s2 \<or>
        bus_log (snd (readMeasurement s)) = bus_log s3"
    by (simp add: readMeasurement_def e1 e2 e3 split: option.split)
  with l1 l2 l3 show ?thesis
    by auto
qed

text \<open>
  C8, as the code has it. An accessor whose flag is not set returns the cached value,
  sets its flag, and leaves the bus alone. \<^verbatim>\<open>getCO2\<close> with its flag set goes to the
  bus: it makes at least one write, and the first thing it writes is the data-ready
  query (02 02). It always leaves its flag set; so of three consecutive calls the second
  and the third each go to the bus, at least two writes in all.
\<close>

theorem accessor_caching:
  "(co2HasBeenReported s = False \<longrightarrow>
      getCO2 to_uint16 s = (to_uint16 (g_co2 s), s\<lparr>co2HasBeenReported := True\<rparr>)) \<and>
   (humidityHasBeenReported s = False \<longrightarrow>
      getHumidity s = (g_humidity s, s\<lparr>humidityHasBeenReported := True\<rparr>)) \<and>
   (temperatureHasBeenReported s = False \<longrightarrow>
      getTemperature s = (g_temperature s, s\<lparr>temperatureHasBeenReported := True\<rparr>)) \<and>
   (co2HasBeenReported s = True \<longrightarrow> n_write s < n_write (snd (getCO2 to_uint16 s))) \<and>
   (co2HasBeenReported s = True \<longrightarrow>
      (\<exists>evs. bus_log (snd (getCO2 to_uint16 s)) = bus_log s @ I2cWrite [0x02, 0x02] # evs)) \<and>
   co2HasBeenReported (snd (getCO2 to_uint16 s)) = True \<and>
   n_write s + 2 \<le>
     n_write (snd (getCO2 to_uint16 (snd (getCO2 to_uint16 (snd (getCO2 to_uint16 s))))))"
proof -
  let ?s1 = "snd (getCO2 to_uint16 s)"
  let ?s2 = "snd (getCO2 to_uint16 ?s1)"
  let ?s3 = "snd (getCO2 to_uint16 ?s2)"
  have 1: "n_write s \<le> n_write ?s1"
    using getCO2_n_write [of s to_uint16] by simp
  have 2: "n_write ?s1 < n_write ?s2"
    using getCO2_n_write [of ?s1 to_uint16] getCO2_flag [of to_uint16 s] by simp
  have 3: "n_write ?s2 < n_write ?s3"
    using getCO2_n_write [of ?s2 to_uint16] getCO2_flag [of to_uint16 ?s1] by simp
  from 1 2 3 have t: "n_write s + 2 \<le> n_write ?s3"
    by linarith
  have w: "co2HasBeenReported s = True \<Longrightarrow>
      \<exists>evs. bus_log (snd (getCO2 to_uint16 s)) = bus_log s @ I2cWrite [0x02, 0x02] # evs"
    using readMeasurement_first_write [of s] by (simp add: getCO2_def Let_def)
  show ?thesis
    using t w getCO2_n_write [of s to_uint16]
    by (simp add: getCO2_def getHumidity_def getTemperature_def Let_def)
qed

theorem accessor_caching_witness:
  "getCO2 to_uint16_sample
     (snd (readMeasurement (init_driver writes_ok reads_sample))) =
     (439, snd (readMeasurement (init_driver writes_ok reads_sample))
                \<lparr>co2HasBeenReported := True\<rparr>) \<and>
   n_write (snd (getCO2 to_uint16_sample (init_driver writes_ok reads_not_ready))) = 1"
proof -
  let ?s = "snd (readMeasurement (init_driver writes_ok reads_sample))"
  have f: "co2HasBeenReported ?s = False \<and> g_co2 ?s = 0x43DB8C2E"
    using readMeasurement_answer [of "init_driver writes_ok reads_sample" sample_bytes]
    by (simp add: init_driver_sel reads_sample_def length_sample_bytes eval_sample)
  have u: "to_uint16_sample 0x43DB8C2E = 439"
    by (simp add: to_uint16_sample_def)
  have n: "n_write (snd (getCO2 to_uint16_sample (init_driver writes_ok reads_not_ready))) \<le> 1"
    by (simp add: getCO2_not_ready init_driver_sel)
  from accessor_caching [of ?s to_uint16_sample] accessor_caching [of "init_driver writes_ok reads_not_ready" to_uint16_sample]
    f u n
  show ?thesis
    by (simp add: init_driver_sel)
qed

section \<open>The pseudo single shot\<close>

lemma bus_grows_begin_scd30: "bus_grows s (snd (begin_scd30 s))"
proof (cases "g_interval s > 0")
  case False
  then show ?thesis
    using bus_only_StopMeasurement [of s] by (simp add: begin_scd30_stop bus_only_def)
next
  case True
  obtain started s1 where e1: "beginMeasuring_void s = (started, s1)"
    by (cases "beginMeasuring_void s")
  obtain stored s2 where e2: "setMeasurementInterval (g_interval s1) s1 = (stored, s2)"
    by (cases "setMeasurementInterval (g_interval s1) s1")
  have a1: "bus_grows s s1"
    using bus_only_beginMeasuring [of s 0] e1 by (simp add: beginMeasuring_void_def bus_only_def)
  have "bus_grows s1 s2"
    using bus_grows_setMeasurementInterval [of s1 "g_interval s1"] e2 by simp
  with a1 have a2: "bus_grows s s2" by (rule bus_grows_trans)
  have a3: "bus_grows s (snd (setAutoSelfCalibration (g_asc s1) s1))"
    using a1 bus_grows_setAutoSelfCalibration by (rule bus_grows_trans)
  have a4: "bus_grows s (snd (setAutoSelfCalibration (g_asc s2) s2))"
    using a2 bus_grows_setAutoSelfCalibration by (rule bus_grows_trans)
  show ?thesis
    using True a2 a3 a4 by (simp add: begin_scd30_def e1 e2)
qed

lemma bus_grows_sleep: "bus_grows s (sleep secs s)"
  by (simp add: bus_grows_def sleep_def)

lemma bus_grows_poll: "bus_grows s (snd (StartSingleMeasurement_poll retry s))"
proof (induction retry s rule: StartSingleMeasurement_poll.induct)
  case (1 retry s)
  obtain stat s1 where e: "dataAvailable s = (stat, s1)"
    by (cases "dataAvailable s")
  from dataAvailable_result [OF e] have a: "bus_grows s s1"
    by (simp add: bus_only_def)
  show ?case
  proof (cases "stat = False")
    case False
    with a show ?thesis
      by (subst StartSingleMeasurement_poll.simps) (simp add: e)
  next
    case True
    have b: "bus_grows s (sleep 1 s1)"
      using a bus_grows_sleep by (rule bus_grows_trans)
    show ?thesis
    proof (cases "retry = 0")
      case True
      with \<open>stat = False\<close> b show ?thesis
        by (subst StartSingleMeasurement_poll.simps) (simp add: e)
    next
      case False
      have "bus_grows (sleep 1 s1) (snd (StartSingleMeasurement_poll (retry - 1) (sleep 1 s1)))"
        using 1 [OF e [symmetric] \<open>stat = False\<close> refl False] .
      with b have "bus_grows s (snd (StartSingleMeasurement_poll (retry - 1) (sleep 1 s1)))"
        by (rule bus_grows_trans)
      with False \<open>stat = False\<close> show ?thesis
        by (subst StartSingleMeasurement_poll.simps) (simp add: e)
    qed
  qed
qed

lemma StopMeasurement_log:
  "\<exists>k. bus_log (snd (StopMeasurement s)) =
          bus_log s @ replicate k (I2cWrite [0x01, 0x04]) @ [I2cWrite [0x01, 0x04]]"
proof -
  have "1 \<le> attempts (\<lambda>i. write_result s i = I2C_OK) (n_write s)"
    by (simp add: attempts_def)
  then obtain k where k: "attempts (\<lambda>i. write_result s i = I2C_OK) (n_write s) = Suc k"
    by (cases "attempts (\<lambda>i. write_result s i = I2C_OK) (n_write s)") simp_all
  have "bus_log (snd (StopMeasurement s)) =
          bus_log s @ replicate (Suc k) (I2cWrite [0x01, 0x04])"
    by (simp add: StopMeasurement_def sendCommand_cmd_def sendCommand_eq buff_stop k
        del: replicate.simps)
  then show ?thesis
    by (auto simp add: replicate_append_same)
qed

text \<open>
  C9. Whatever the bus does, \<^verbatim>\<open>StartSingleMeasurement\<close> returns with the saved asc
  and interval as they were before the call, and the last thing it did on the bus is a
  write of the stop-measurement frame (01 04). The polling loop is bounded, so the
  function always returns.
\<close>

theorem StartSingleMeasurement_stops_and_restores:
  "shadow_of (snd (StartSingleMeasurement s)) = shadow_of s \<and>
   (\<exists>evs. bus_log (snd (StartSingleMeasurement s)) =
            bus_log s @ evs @ [I2cWrite [0x01, 0x04]])"
proof -
  let ?s0 = "s\<lparr>g_asc := False, g_interval := 2\<rparr>"
  obtain begun s1 where e1: "begin_scd30 ?s0 = (begun, s1)"
    by (cases "begin_scd30 ?s0")
  obtain stat s2 where e2: "StartSingleMeasurement_poll 10 s1 = (stat, s2)"
    by (cases "StartSingleMeasurement_poll 10 s1")
  obtain got s3 where e3: "readMeasurement s2 = (got, s3)"
    by (cases "readMeasurement s2")
  have g0: "bus_grows s ?s0"
    by (simp add: bus_grows_def)
  have "bus_grows ?s0 s1"
    using bus_grows_begin_scd30 [of ?s0] e1 by simp
  with g0 have g1: "bus_grows s s1" by (rule bus_grows_trans)
  have "bus_grows s1 s2"
    using bus_grows_poll [of s1 10] e2 by simp
  with g1 have g2: "bus_grows s s2" by (rule bus_grows_trans)
  have "bus_grows s2 s3"
    using readMeasurement_result [OF e3] by simp
  with g2 have g3: "bus_grows s s3" by (rule bus_grows_trans)
  define r where "r = (if begun = False then (False, s1)
                       else if stat = True then (got, s3) else (stat, s2))"
  have r: "bus_grows s (snd r)"
    using g1 g2 g3 by (simp add: r_def)
  then obtain pre where pre: "bus_log (snd r) = bus_log s @ pre"
    by (auto simp add: bus_grows_def prefix_def)
  obtain k where k: "bus_log (snd (StopMeasurement (snd r))) =
      bus_log (snd r) @ replicate k (I2cWrite [0x01, 0x04]) @ [I2cWrite [0x01, 0x04]]"
    using StopMeasurement_log [of "snd r"] by blast
  have e: "StartSingleMeasurement s =
      (fst r, snd (StopMeasurement (snd r))\<lparr>g_asc := g_asc s, g_interval := g_interval s\<rparr>)"
    by (simp add: StartSingleMeasurement_def Let_def e1 e2 e3 r_def split: prod.split)
  have "bus_log (snd (StartSingleMeasurement s)) =
      bus_log s @ (pre @ replicate k (I2cWrite [0x01, 0x04])) @ [I2cWrite [0x01, 0x04]]"
    by (simp add: e k pre)
  then show ?thesis
    by (simp only: e shadow_of_def) auto
qed


lemma crc_02: "computeCRC8 [0, 2] 2 = 0xE3"
  by code_simp

lemma buff_single_shot:
  "sendCommand_buff COMMAND_SET_MEASUREMENT_INTERVAL 2 5 = [0x46, 0x00, 0x00, 0x02, 0xE3]"
  "sendCommand_buff COMMAND_AUTOMATIC_SELF_CALIBRATION 0 5 = [0x53, 0x06, 0x00, 0x00, 0x81]"
  by (simp_all add: sendCommand_buff_def COMMAND_SET_MEASUREMENT_INTERVAL_def
      COMMAND_AUTOMATIC_SELF_CALIBRATION_def crc_00 crc_02)

lemma sendCommand_args_ok:
  "write_result s (n_write s) = I2C_OK \<Longrightarrow>
   sendCommand_args command arguments s =
     (True, s\<lparr>n_write := n_write s + 1,
              bus_log := bus_log s @ [I2cWrite (sendCommand_buff command arguments 5)]\<rparr>)"
  by (simp add: sendCommand_args_def sendCommand_eq attempts_def)

lemma begin_scd30_single_shot_ok:
  assumes "write_result s = writes_ok" and "g_asc s = False" and "g_interval s = 2"
  shows "begin_scd30 s =
     (True, s\<lparr>n_write := n_write s + 3,
              bus_log := bus_log s @
                [I2cWrite [0x00, 0x10, 0x00, 0x00, 0x81], I2cWrite [0x46, 0x00, 0x00, 0x02, 0xE3],
                 I2cWrite [0x53, 0x06, 0x00, 0x00, 0x81]]\<rparr>)"
proof -
  have 1: "beginMeasuring_void s =
     (True, s\<lparr>n_write := n_write s + 1,
              bus_log := bus_log s @ [I2cWrite [0x00, 0x10, 0x00, 0x00, 0x81]]\<rparr>)"
    using assms(1)
    by (simp add: beginMeasuring_void_def beginMeasuring_def sendCommand_args_ok writes_ok_def
        buff_start_0)
  show ?thesis
    using assms
    by (simp add: begin_scd30_def 1 setMeasurementInterval_def setAutoSelfCalibration_eq
        sendCommand_args_ok writes_ok_def buff_single_shot Let_def)
qed


lemma dataAvailable_not_ready:
  assumes "write_result s = writes_ok" and "read_result s = reads_not_ready"
  shows "dataAvailable s =
     (False, s\<lparr>n_write := n_write s + 1, n_read := n_read s + 1,
               bus_log := bus_log s @ [I2cWrite [0x02, 0x02], I2cRead 3]\<rparr>)"
  using assms
  by (subst dataAvailable_answer [where ?b0.0 = 0 and ?b1.0 = 0 and ?b2.0 = "0x81"])
     (simp_all add: writes_ok_def reads_not_ready_def)

lemma poll_not_ready:
  assumes "write_result s = writes_ok" and "read_result s = reads_not_ready"
  shows "StartSingleMeasurement_poll retry s =
     (False, s\<lparr>n_write := n_write s + Suc retry, n_read := n_read s + Suc retry,
               bus_log := bus_log s @
                 concat (replicate (Suc retry) [I2cWrite [0x02, 0x02], I2cRead 3, Sleep 1])\<rparr>)"
  using assms
proof (induction retry arbitrary: s)
  case 0
  then show ?case
    by (subst StartSingleMeasurement_poll.simps)
       (simp add: dataAvailable_not_ready sleep_def)
next
  case (Suc retry)
  let ?s2 = "s\<lparr>n_write := n_write s + 1, n_read := n_read s + 1,
               bus_log := bus_log s @ [I2cWrite [0x02, 0x02], I2cRead 3, Sleep 1]\<rparr>"
  have "StartSingleMeasurement_poll (Suc retry) s = StartSingleMeasurement_poll retry ?s2"
    using Suc.prems
    by (subst StartSingleMeasurement_poll.simps)
       (simp add: dataAvailable_not_ready sleep_def)
  also have "\<dots> = (False, ?s2\<lparr>n_write := n_write ?s2 + Suc retry,
      n_read := n_read ?s2 + Suc retry,
      bus_log := bus_log ?s2 @
        concat (replicate (Suc retry) [I2cWrite [0x02, 0x02], I2cRead 3, Sleep 1])\<rparr>)"
    using Suc.prems by (intro Suc.IH) simp_all
  finally show ?case
    by simp
qed


lemma single_shot_nack:
  "fst (StartSingleMeasurement (init_driver writes_nack reads_nack)) = False"
  by (simp add: StartSingleMeasurement_def begin_scd30_def beginMeasuring_void_def
      beginMeasuring_def setAutoSelfCalibration_eq sendCommand_args_def sendCommand_eq
      init_driver_sel writes_nack_def Let_def split: prod.split)

lemma single_shot_not_ready:
  "fst (StartSingleMeasurement (init_driver writes_ok reads_not_ready)) = False \<and>
   bus_log (snd (StartSingleMeasurement (init_driver writes_ok reads_not_ready))) =
     [I2cWrite [0x00, 0x10, 0x00, 0x00, 0x81], I2cWrite [0x46, 0x00, 0x00, 0x02, 0xE3],
      I2cWrite [0x53, 0x06, 0x00, 0x00, 0x81]] @
     concat (replicate 11 [I2cWrite [0x02, 0x02], I2cRead 3, Sleep 1]) @
     [I2cWrite [0x01, 0x04]]"
proof -
  let ?s0 = "(init_driver writes_ok reads_not_ready)\<lparr>g_asc := False, g_interval := 2\<rparr>"
  have b: "begin_scd30 ?s0 =
     (True, ?s0\<lparr>n_write := n_write ?s0 + 3,
              bus_log := bus_log ?s0 @
                [I2cWrite [0x00, 0x10, 0x00, 0x00, 0x81], I2cWrite [0x46, 0x00, 0x00, 0x02, 0xE3],
                 I2cWrite [0x53, 0x06, 0x00, 0x00, 0x81]]\<rparr>)"
    by (rule begin_scd30_single_shot_ok) (simp_all add: init_driver_sel)
  have e: "Suc 10 = 11" by simp
  show ?thesis
    by (simp add: StartSingleMeasurement_def Let_def b poll_not_ready init_driver_sel
        StopMeasurement_def sendCommand_cmd_ok writes_ok_def buff_stop e
        del: replicate.simps replicate_Suc)
qed

lemma single_shot_sample:
  "fst (StartSingleMeasurement (init_driver writes_ok reads_sample2)) = True \<and>
   sample_of (snd (StartSingleMeasurement (init_driver writes_ok reads_sample2))) =
     ((0x43DB8C2E, 0x41D9E7FF, 0x42433A1B), (False, False, False))"
proof -
  let ?s0 = "(init_driver writes_ok reads_sample2)\<lparr>g_asc := False, g_interval := 2\<rparr>"
  let ?s1 = "(init_driver writes_ok reads_sample2)
      \<lparr>g_asc := False, g_interval := 2, n_write := 3,
        bus_log := [I2cWrite [0x00, 0x10, 0x00, 0x00, 0x81],
                    I2cWrite [0x46, 0x00, 0x00, 0x02, 0xE3],
                    I2cWrite [0x53, 0x06, 0x00, 0x00, 0x81]]\<rparr>"
  let ?s2 = "(init_driver writes_ok reads_sample2)
      \<lparr>g_asc := False, g_interval := 2, n_write := 4, n_read := 1,
        bus_log := [I2cWrite [0x00, 0x10, 0x00, 0x00, 0x81],
                    I2cWrite [0x46, 0x00, 0x00, 0x02, 0xE3],
                    I2cWrite [0x53, 0x06, 0x00, 0x00, 0x81],
                    I2cWrite [0x02, 0x02], I2cRead 3]\<rparr>"
  have b: "begin_scd30 ?s0 = (True, ?s1)"
    using begin_scd30_single_shot_ok [of ?s0] by (simp add: init_driver_sel)
  have d: "dataAvailable ?s1 = (True, ?s2)"
    using dataAvailable_answer [of ?s1 0 1 "0xB0"]
    by (simp add: init_driver_sel writes_ok_def reads_sample2_def checkCrc_ready)
  have p: "StartSingleMeasurement_poll 10 ?s1 = (True, ?s2)"
    by (subst StartSingleMeasurement_poll.simps) (simp add: d)
  have r: "fst (readMeasurement ?s2) = True \<and>
      sample_of (snd (readMeasurement ?s2)) =
        ((0x43DB8C2E, 0x41D9E7FF, 0x42433A1B), (False, False, False))"
    using readMeasurement_answer [of ?s2 sample_bytes]
    by (simp add: init_driver_sel reads_sample2_def length_sample_bytes eval_sample
        sample_of_def)
  have k: "sample_of (snd (StopMeasurement s)\<lparr>g_asc := a, g_interval := i\<rparr>) = sample_of s"
    for s a i
    using bus_only_StopMeasurement [of s] by (simp add: bus_only_def sample_of_def)
  show ?thesis
    using r
    by (auto simp add: StartSingleMeasurement_def Let_def b p k split: prod.split)
qed

text \<open>
  The three ways out, on concrete buses: the start is not acknowledged; the sensor is
  never ready, and the loop gives up after 11 queries and 11 sleeps of one second; the
  sensor is ready at once and the sample is read.
\<close>

theorem StartSingleMeasurement_stops_and_restores_witness:
  "fst (StartSingleMeasurement (init_driver writes_nack reads_nack)) = False \<and>
   shadow_of (snd (StartSingleMeasurement (init_driver writes_nack reads_nack))) = (True, 2) \<and>
   last (bus_log (snd (StartSingleMeasurement (init_driver writes_nack reads_nack)))) =
     I2cWrite [0x01, 0x04] \<and>
   fst (StartSingleMeasurement (init_driver writes_ok reads_not_ready)) = False \<and>
   shadow_of (snd (StartSingleMeasurement (init_driver writes_ok reads_not_ready))) = (True, 2) \<and>
   bus_log (snd (StartSingleMeasurement (init_driver writes_ok reads_not_ready))) =
     [I2cWrite [0x00, 0x10, 0x00, 0x00, 0x81], I2cWrite [0x46, 0x00, 0x00, 0x02, 0xE3],
      I2cWrite [0x53, 0x06, 0x00, 0x00, 0x81]] @
     concat (replicate 11 [I2cWrite [0x02, 0x02], I2cRead 3, Sleep 1]) @
     [I2cWrite [0x01, 0x04]] \<and>
   fst (StartSingleMeasurement (init_driver writes_ok reads_sample2)) = True \<and>
   shadow_of (snd (StartSingleMeasurement (init_driver writes_ok reads_sample2))) = (True, 2) \<and>
   last (bus_log (snd (StartSingleMeasurement (init_driver writes_ok reads_sample2)))) =
     I2cWrite [0x01, 0x04] \<and>
   sample_of (snd (StartSingleMeasurement (init_driver writes_ok reads_sample2))) =
     ((0x43DB8C2E, 0x41D9E7FF, 0x42433A1B), (False, False, False))"
proof -
  have a: "shadow_of (snd (StartSingleMeasurement (init_driver wr rd))) = (True, 2) \<and>
      last (bus_log (snd (StartSingleMeasurement (init_driver wr rd)))) = I2cWrite [0x01, 0x04]"
    for wr rd
  proof -
    from StartSingleMeasurement_stops_and_restores [of "init_driver wr rd"]
    obtain evs where
      "shadow_of (snd (StartSingleMeasurement (init_driver wr rd))) =
         shadow_of (init_driver wr rd)"
      "bus_log (snd (StartSingleMeasurement (init_driver wr rd))) =
         bus_log (init_driver wr rd) @ evs @ [I2cWrite [0x01, 0x04]]"
      by blast
    then show ?thesis
      by (simp add: shadow_of_def init_driver_sel)
  qed
  show ?thesis
    using a [of writes_nack reads_nack] a [of writes_ok reads_not_ready]
      a [of writes_ok reads_sample2] single_shot_nack single_shot_not_ready single_shot_sample
    by simp
qed

end
